theory Spec2Isabelle
  imports Main "HOL-Library.Word" "HOL-Library.Monad_Syntax"
begin

unbundle bit_operations_syntax

section \<open>kernel/boot/boot.S: the multiboot header\<close>

text \<open>
  The assembler computes with integers and \<^verbatim>\<open>.long\<close> emits the low 32 bits of its
  operand. \<^verbatim>\<open>multiboot.h\<close> is not among the sources, so the three macros
  \<^verbatim>\<open>MULTIBOOT_HEADER_MAGIC\<close>, \<^verbatim>\<open>MULTIBOOT_PAGE_ALIGN\<close> and \<^verbatim>\<open>MULTIBOOT_MEMORY_INFO\<close> are
  parameters of the model.
\<close>

definition long :: "int \<Rightarrow> 32 word" where
  "long x = word_of_int x"

text \<open>\<^verbatim>\<open>.set FLAGS, MULTIBOOT_PAGE_ALIGN | MULTIBOOT_MEMORY_INFO\<close>\<close>

definition FLAGS :: "int \<Rightarrow> int \<Rightarrow> int" where
  "FLAGS page_align memory_info = page_align OR memory_info"

text \<open>\<^verbatim>\<open>.set CHECKSUM, -(MULTIBOOT_HEADER_MAGIC + FLAGS)\<close>\<close>

definition CHECKSUM :: "int \<Rightarrow> int \<Rightarrow> int \<Rightarrow> int" where
  "CHECKSUM magic page_align memory_info = - (magic + FLAGS page_align memory_info)"

text \<open>The contents of section \<^verbatim>\<open>.multiboot\<close>: three \<^verbatim>\<open>.long\<close> directives.\<close>

definition multiboot_section :: "int \<Rightarrow> int \<Rightarrow> int \<Rightarrow> 32 word list" where
  "multiboot_section magic page_align memory_info =
     [long magic,
      long (FLAGS page_align memory_info),
      long (CHECKSUM magic page_align memory_info)]"

section \<open>Declarations shared by the kernel sources\<close>

text \<open>
  Every kernel entry point returns an \<^verbatim>\<open>int\<close>: zero or a positive value on success, a
  negated error code on failure. A negative return \<^verbatim>\<open>-E\<close> is \<open>Inl E\<close> here and a
  non-negative return \<open>n\<close> is \<open>Inr n\<close>. \<open>PANIC\<close> stands for a halted kernel (a call of
  \<^verbatim>\<open>panic\<close>, a failed \<^verbatim>\<open>KASSERT\<close>, a null dereference): no value is returned.
\<close>

datatype error =
  EINVAL | EBADF | EACCES | ENOMEM | EMFILE | EISDIR | ENOENT | ENOTDIR | ENOTEMPTY
  | ENAMETOOLONG | ENOSPC | EFAULT | PANIC

text \<open>
  The header files are not among the sources. The macros whose values the four source
  files use are the fields of this record; every function that needs one takes the record.
\<close>

record headers =
  USER_MEM_LOW :: nat
  USER_MEM_HIGH :: nat
  MAP_SHARED :: int
  MAP_PRIVATE :: int
  MAP_ANON :: int
  PROT_WRITE :: int
  FMODE_READ :: int
  FMODE_WRITE :: int
  FMODE_APPEND :: int
  O_RDONLY :: int
  O_WRONLY :: int
  O_RDWR :: int
  O_APPEND :: int
  NFILES :: nat
  DEFAULT_STACK_SIZE :: nat
  sizeof_regs_t :: nat
  userland_entry :: nat
  S5_NAME_LEN :: nat
  S5_NDIRECT_BLOCKS :: nat
  sizeof_dirent_t :: nat
  offsetof_d_name :: nat

text \<open>
  Modelled from the spec: \<^verbatim>\<open>mm/page.h\<close> is not among the sources. The machine is a 32-bit
  x86 and pages are 1:1 with the 4 KiB device blocks, so a page has 4096 bytes;
  \<^verbatim>\<open>PAGE_ALIGNED\<close> tests for a multiple of the page size and \<^verbatim>\<open>ADDR_TO_PN\<close> gives the
  page number of an address.
\<close>

definition PAGE_SIZE :: nat where
  "PAGE_SIZE = 4096"

definition PAGE_ALIGNED :: "int \<Rightarrow> bool" where
  "PAGE_ALIGNED x = (x mod int PAGE_SIZE = 0)"

definition ADDR_TO_PN :: "nat \<Rightarrow> nat" where
  "ADDR_TO_PN x = x div PAGE_SIZE"

text \<open>
  Modelled from the spec: \<^verbatim>\<open>fs/stat.h\<close> is not among the sources. The mode of a vnode
  says what kind of file it is: regular, directory, character or block device; the
  \<^verbatim>\<open>S_IS...\<close> macros test the kind.
\<close>

datatype vmode = S_IFREG | S_IFDIR | S_IFCHR | S_IFBLK | S_IFLNK

definition S_ISDIR :: "vmode \<Rightarrow> bool" where
  "S_ISDIR m = (m = S_IFDIR)"

definition S_ISCHR :: "vmode \<Rightarrow> bool" where
  "S_ISCHR m = (m = S_IFCHR)"

definition S_ISBLK :: "vmode \<Rightarrow> bool" where
  "S_ISBLK m = (m = S_IFBLK)"

text \<open>
  Pointers are numbers; a pointer that may be \<^verbatim>\<open>NULL\<close> is an \<open>option\<close>. The mutex of a
  vnode is held or free.
\<close>

record file_t =
  f_mode :: int
  f_pos :: int
  f_refcount :: nat
  f_vnode :: "nat option"

record vnode_t =
  vn_refcount :: nat
  vn_mode :: vmode
  vn_mmobj :: nat
  vn_len :: nat
  vn_devid :: nat
  vn_mutex :: bool

record mmobj_t =
  mmo_refcount :: nat
  mmo_shadowed :: "nat option"

record vmarea_t =
  vma_start :: nat
  vma_end :: nat
  vma_off :: int
  vma_prot :: int
  vma_flags :: int
  vma_obj :: nat

datatype proc_state = PROC_RUNNING | PROC_DEAD

record proc_t =
  p_pid :: nat
  p_comm :: string
  p_status :: int
  p_state :: proc_state
  p_pagedir :: nat
  p_brk :: nat
  p_start_brk :: nat
  p_cwd :: nat
  p_files :: "nat \<Rightarrow> nat option"
  p_vmmap :: "vmarea_t list"
  p_threads :: "nat list"

text \<open>
  The kernel state the source files work on: the process table with \<^verbatim>\<open>curproc\<close>, the
  threads with \<^verbatim>\<open>curthr\<close>, kernel memory (one 32-bit word per address that is a
  multiple of four) and the run queue, the open-file objects with their slab allocator,
  the vnode table, the memory objects, the page directories (each the set of user pages
  it maps) and the translation lookaside buffer (the set of virtual page numbers it
  caches). A process is addressed by its pid. An area list \<open>p_vmmap\<close> is kept in ascending
  order of \<open>vma_start\<close>.
\<close>

record context_t =
  c_eip :: nat
  c_esp :: nat
  c_pdptr :: nat
  c_kstack :: nat
  c_kstacksz :: nat

record kthread_t =
  kt_kstack :: nat
  kt_proc :: nat
  kt_ctx :: context_t

record kernel =
  curproc :: nat
  curthr :: nat
  procs :: "nat \<Rightarrow> proc_t"
  next_pid :: nat
  threads :: "nat \<Rightarrow> kthread_t"
  next_thread :: nat
  next_kstack :: nat
  kmem :: "nat \<Rightarrow> nat"
  runq :: "nat list"
  files :: "nat \<Rightarrow> file_t"
  file_allocator :: "nat list"
  vnodes :: "nat \<Rightarrow> vnode_t"
  mmobjs :: "nat \<Rightarrow> mmobj_t"
  next_mmobj :: nat
  pagedirs :: "nat \<Rightarrow> nat set"
  next_pagedir :: nat
  tlb :: "nat set"

definition set_files :: "(nat \<Rightarrow> nat option) \<Rightarrow> kernel \<Rightarrow> kernel" where
  "set_files fds s = s\<lparr>procs := (procs s)(curproc s := (procs s (curproc s))\<lparr>p_files := fds\<rparr>)\<rparr>"

definition set_vmmap :: "vmarea_t list \<Rightarrow> kernel \<Rightarrow> kernel" where
  "set_vmmap m s = s\<lparr>procs := (procs s)(curproc s := (procs s (curproc s))\<lparr>p_vmmap := m\<rparr>)\<rparr>"

section \<open>Functions of other kernel files that the sources call\<close>

subsection \<open>Vnodes and open files\<close>

text \<open>
  Modelled from the spec: \<^verbatim>\<open>fs/vnode.c\<close> is not among the sources. \<open>vput\<close> decrements
  the reference count of a vnode, \<open>vref\<close> increments it.
\<close>

definition vput :: "nat \<Rightarrow> kernel \<Rightarrow> kernel" where
  "vput v s = s\<lparr>vnodes := (vnodes s)(v := (vnodes s v)\<lparr>vn_refcount := vn_refcount (vnodes s v) - 1\<rparr>)\<rparr>"

definition vref :: "nat \<Rightarrow> kernel \<Rightarrow> kernel" where
  "vref v s = s\<lparr>vnodes := (vnodes s)(v := (vnodes s v)\<lparr>vn_refcount := vn_refcount (vnodes s v) + 1\<rparr>)\<rparr>"

text \<open>
  Modelled from the spec: \<^verbatim>\<open>fs/file.c\<close> is not among the sources. A file is an open-file
  description with a reference count. \<open>fref\<close> takes a reference. \<open>fget (-1)\<close> hands out a
  fresh, zeroed file object holding one reference, or \<^verbatim>\<open>NULL\<close> when the allocator has
  none left; \<open>fget fd\<close> resolves a descriptor of the current process and takes a
  reference, or gives \<^verbatim>\<open>NULL\<close> for a descriptor that is out of range or not open.
  \<open>fput\<close> drops a reference; the last one releases the vnode of the file, if it has one,
  and gives the object back to the allocator.
\<close>

definition fref :: "nat \<Rightarrow> kernel \<Rightarrow> kernel" where
  "fref f s = s\<lparr>files := (files s)(f := (files s f)\<lparr>f_refcount := f_refcount (files s f) + 1\<rparr>)\<rparr>"

definition fget :: "headers \<Rightarrow> int \<Rightarrow> kernel \<Rightarrow> nat option \<times> kernel" where
  "fget h fd s =
     (if fd = -1 then
        (case file_allocator s of
           [] \<Rightarrow> (None, s)
         | f # free \<Rightarrow>
             (Some f, fref f (s\<lparr>file_allocator := free,
                files := (files s)(f := \<lparr>f_mode = 0, f_pos = 0, f_refcount = 0, f_vnode = None\<rparr>)\<rparr>)))
      else if fd < 0 \<or> int (NFILES h) \<le> fd then (None, s)
      else
        (case p_files (procs s (curproc s)) (nat fd) of
           None \<Rightarrow> (None, s)
         | Some f \<Rightarrow> (Some f, fref f s)))"

definition fput :: "nat \<Rightarrow> kernel \<Rightarrow> kernel" where
  "fput f s =
     (let s1 = s\<lparr>files := (files s)(f := (files s f)\<lparr>f_refcount := f_refcount (files s f) - 1\<rparr>)\<rparr>
      in if f_refcount (files s1 f) = 0 then
           (let s2 = (case f_vnode (files s1 f) of None \<Rightarrow> s1 | Some v \<Rightarrow> vput v s1)
            in s2\<lparr>file_allocator := f # file_allocator s2\<rparr>)
         else s1)"

text \<open>
  Modelled from the spec: \<^verbatim>\<open>fs/vfs_syscall.c\<close> is not among the sources. \<open>do_close\<close>
  gives a descriptor back: it fails with \<open>EBADF\<close> for a descriptor that is out of range or
  not open, and otherwise drops the reference of the slot and clears the slot.
\<close>

definition do_close :: "headers \<Rightarrow> int \<Rightarrow> kernel \<Rightarrow> (error + nat) \<times> kernel" where
  "do_close h fd s =
     (if fd < 0 \<or> int (NFILES h) \<le> fd then (Inl EBADF, s)
      else
        (case p_files (procs s (curproc s)) (nat fd) of
           None \<Rightarrow> (Inl EBADF, s)
         | Some f \<Rightarrow>
             (let s1 = fput f s
              in (Inr 0, set_files ((p_files (procs s1 (curproc s1)))(nat fd := None)) s1))))"

subsection \<open>Memory objects, the address-space map and the TLB\<close>

text \<open>
  Modelled from the spec: \<^verbatim>\<open>mm/mmobj.c\<close>, \<^verbatim>\<open>vm/anon.c\<close> and \<^verbatim>\<open>vm/shadow.c\<close> are not among
  the sources. Every memory object carries a reference count; \<open>mmobj_ref\<close> and
  \<open>mmobj_put\<close> are its \<^verbatim>\<open>ref\<close> and \<^verbatim>\<open>put\<close> operations. \<open>anon_create\<close> and
  \<open>shadow_create\<close> hand out a fresh object holding one reference that shadows nothing
  yet.
\<close>

definition mmobj_ref :: "nat \<Rightarrow> kernel \<Rightarrow> kernel" where
  "mmobj_ref ob s = s\<lparr>mmobjs := (mmobjs s)(ob := (mmobjs s ob)\<lparr>mmo_refcount := mmo_refcount (mmobjs s ob) + 1\<rparr>)\<rparr>"

definition mmobj_put :: "nat \<Rightarrow> kernel \<Rightarrow> kernel" where
  "mmobj_put ob s = s\<lparr>mmobjs := (mmobjs s)(ob := (mmobjs s ob)\<lparr>mmo_refcount := mmo_refcount (mmobjs s ob) - 1\<rparr>)\<rparr>"

definition mmobj_create :: "kernel \<Rightarrow> nat \<times> kernel" where
  "mmobj_create s =
     (next_mmobj s,
      s\<lparr>mmobjs := (mmobjs s)(next_mmobj s := \<lparr>mmo_refcount = 1, mmo_shadowed = None\<rparr>),
        next_mmobj := next_mmobj s + 1\<rparr>)"

definition anon_create :: "kernel \<Rightarrow> nat \<times> kernel" where
  "anon_create = mmobj_create"

definition shadow_create :: "kernel \<Rightarrow> nat \<times> kernel" where
  "shadow_create = mmobj_create"

text \<open>
  Modelled from the spec: \<^verbatim>\<open>mm/tlb.h\<close> is not among the sources. \<open>tlb_flush_range\<close>
  drops the translations of \<open>n\<close> pages from a virtual address on, \<open>tlb_flush_all\<close> drops
  all of them.
\<close>

definition tlb_flush_range :: "nat \<Rightarrow> nat \<Rightarrow> kernel \<Rightarrow> kernel" where
  "tlb_flush_range vaddr n s = s\<lparr>tlb := tlb s - {ADDR_TO_PN vaddr ..< ADDR_TO_PN vaddr + n}\<rparr>"

definition tlb_flush_all :: "kernel \<Rightarrow> kernel" where
  "tlb_flush_all s = s\<lparr>tlb := {}\<rparr>"

text \<open>
  Modelled from the spec: \<^verbatim>\<open>vm/vmmap.c\<close> is not among the sources.
  \<open>vmmap_remove\<close> makes the pages \<open>[lopage, lopage + npages)\<close> unmapped: every area that
  overlaps the range is split, truncated or deleted; a split cites the memory object once
  more and a deletion drops the citation. It always succeeds.
\<close>

fun vmmap_remove_areas :: "nat \<Rightarrow> nat \<Rightarrow> vmarea_t list \<Rightarrow> kernel \<Rightarrow> vmarea_t list \<times> kernel" where
  "vmmap_remove_areas lo hi [] s = ([], s)"
| "vmmap_remove_areas lo hi (a # as) s =
     (if vma_start a < lo \<and> hi < vma_end a then
        (let (rest, s1) = vmmap_remove_areas lo hi as (mmobj_ref (vma_obj a) s)
         in (a\<lparr>vma_end := lo\<rparr>
             # a\<lparr>vma_start := hi, vma_off := vma_off a + int (hi - vma_start a)\<rparr> # rest, s1))
      else if vma_start a < lo \<and> lo < vma_end a then
        (let (rest, s1) = vmmap_remove_areas lo hi as s
         in (a\<lparr>vma_end := lo\<rparr> # rest, s1))
      else if lo \<le> vma_start a \<and> vma_start a < hi \<and> hi < vma_end a then
        (let (rest, s1) = vmmap_remove_areas lo hi as s
         in (a\<lparr>vma_start := hi, vma_off := vma_off a + int (hi - vma_start a)\<rparr> # rest, s1))
      else if lo \<le> vma_start a \<and> vma_end a \<le> hi then
        vmmap_remove_areas lo hi as (mmobj_put (vma_obj a) s)
      else
        (let (rest, s1) = vmmap_remove_areas lo hi as s
         in (a # rest, s1)))"

definition vmmap_remove :: "nat \<Rightarrow> nat \<Rightarrow> kernel \<Rightarrow> (error + nat) \<times> kernel" where
  "vmmap_remove lopage npages s =
     (let (areas, s1) =
            vmmap_remove_areas lopage (lopage + npages) (p_vmmap (procs s (curproc s))) s
      in (Inr 0, set_vmmap areas s1))"

text \<open>Modelled from the spec: \<open>vmmap_lookup\<close> finds the area that contains a page.\<close>

definition vmmap_lookup :: "vmarea_t list \<Rightarrow> nat \<Rightarrow> vmarea_t option" where
  "vmmap_lookup m vfn = find (\<lambda>a. vma_start a \<le> vfn \<and> vfn < vma_end a) m"

text \<open>
  Modelled from the spec: the search for a hole of \<open>npages\<close> pages in a direction. From
  the high end of the user range downwards the areas are visited in descending order, from
  the low end upwards in ascending order.
\<close>

fun vmmap_find_range_hilo :: "nat \<Rightarrow> nat \<Rightarrow> nat \<Rightarrow> vmarea_t list \<Rightarrow> nat option" where
  "vmmap_find_range_hilo lo hi npages [] =
     (if lo + npages \<le> hi then Some (hi - npages) else None)"
| "vmmap_find_range_hilo lo hi npages (a # as) =
     (if vma_end a + npages \<le> hi then Some (hi - npages)
      else vmmap_find_range_hilo lo (vma_start a) npages as)"

datatype vmmap_dir = VMMAP_DIR_LOHI | VMMAP_DIR_HILO

fun vmmap_find_range_lohi :: "nat \<Rightarrow> nat \<Rightarrow> nat \<Rightarrow> vmarea_t list \<Rightarrow> nat option" where
  "vmmap_find_range_lohi lo hi npages [] =
     (if lo + npages \<le> hi then Some lo else None)"
| "vmmap_find_range_lohi lo hi npages (a # as) =
     (if lo + npages \<le> vma_start a then Some lo
      else vmmap_find_range_lohi (vma_end a) hi npages as)"

definition vmmap_find_range :: "headers \<Rightarrow> vmarea_t list \<Rightarrow> nat \<Rightarrow> vmmap_dir \<Rightarrow> nat option" where
  "vmmap_find_range h m npages dir =
     (case dir of
        VMMAP_DIR_HILO \<Rightarrow>
          vmmap_find_range_hilo (ADDR_TO_PN (USER_MEM_LOW h)) (ADDR_TO_PN (USER_MEM_HIGH h)) npages (rev m)
      | VMMAP_DIR_LOHI \<Rightarrow>
          vmmap_find_range_lohi (ADDR_TO_PN (USER_MEM_LOW h)) (ADDR_TO_PN (USER_MEM_HIGH h)) npages m)"

text \<open>
  Modelled from the spec: \<open>vmmap_map\<close>. With a page-number hint other than zero the
  area is mapped at exactly that range, which fails with \<open>EINVAL\<close> when the range is
  outside \<open>[USER_LOW_PAGE, USER_HIGH_PAGE)\<close> and otherwise evicts what overlaps it;
  without a hint a hole is searched in the given direction, \<open>ENOMEM\<close> when there is
  none. The memory object is a fresh anonymous object when there is no vnode and the
  referenced object of the vnode otherwise; a private mapping puts a fresh shadow object
  in front of it. The area is inserted in order. The new area is handed back on success
  only.
\<close>

definition vmmap_map ::
  "headers \<Rightarrow> nat option \<Rightarrow> nat \<Rightarrow> nat \<Rightarrow> int \<Rightarrow> int \<Rightarrow> int \<Rightarrow> vmmap_dir \<Rightarrow> kernel
     \<Rightarrow> (error + vmarea_t) \<times> kernel" where
  "vmmap_map h vnode lopage npages prot flags off dir s =
     (let place =
            (if lopage \<noteq> 0 then
               (if lopage < ADDR_TO_PN (USER_MEM_LOW h)
                   \<or> ADDR_TO_PN (USER_MEM_HIGH h) < lopage + npages
                then Inl EINVAL else Inr lopage)
             else
               (case vmmap_find_range h (p_vmmap (procs s (curproc s))) npages dir of
                  None \<Rightarrow> Inl ENOMEM
                | Some start \<Rightarrow> Inr start))
      in case place of
           Inl e \<Rightarrow> (Inl e, s)
         | Inr start \<Rightarrow>
             (let s1 = (if lopage \<noteq> 0 then snd (vmmap_remove start npages s) else s);
                  (bottom, s2) =
                    (case vnode of
                       None \<Rightarrow> anon_create s1
                     | Some v \<Rightarrow> (vn_mmobj (vnodes s1 v), mmobj_ref (vn_mmobj (vnodes s1 v)) s1));
                  (ob, s3) =
                    (if flags AND MAP_PRIVATE h \<noteq> 0 then
                       (let (shadow, s') = shadow_create s2
                        in (shadow, s'\<lparr>mmobjs := (mmobjs s')(shadow :=
                              (mmobjs s' shadow)\<lparr>mmo_shadowed := Some bottom\<rparr>)\<rparr>))
                     else (bottom, s2));
                  area = \<lparr>vma_start = start, vma_end = start + npages, vma_off = off,
                          vma_prot = prot, vma_flags = flags, vma_obj = ob\<rparr>
              in (Inr area,
                  set_vmmap (insort_key vma_start area (p_vmmap (procs s3 (curproc s3)))) s3)))"

subsection \<open>Lists, processes, threads and page tables\<close>

text \<open>
  Modelled from the spec: \<^verbatim>\<open>util/list.h\<close> is not among the sources. A \<^verbatim>\<open>list_t\<close> is a
  circular doubly-linked list with a sentinel. A link of a well-formed list is the
  sentinel itself (\<open>Head\<close>) or the link embedded in the element at position \<open>i\<close>
  (\<open>Item i\<close>); \<open>l_next\<close> and \<open>l_prev\<close> walk the circle, and \<open>list_item\<close> gives the
  position of the element a link is embedded in, which the sentinel does not have.
\<close>

datatype list_link = Head | Item nat

definition l_next :: "'a list \<Rightarrow> list_link \<Rightarrow> list_link" where
  "l_next xs l =
     (case l of
        Head \<Rightarrow> (if xs = [] then Head else Item 0)
      | Item i \<Rightarrow> (if Suc i < length xs then Item (Suc i) else Head))"

definition l_prev :: "'a list \<Rightarrow> list_link \<Rightarrow> list_link" where
  "l_prev xs l =
     (case l of
        Head \<Rightarrow> (if xs = [] then Head else Item (length xs - 1))
      | Item i \<Rightarrow> (if i = 0 then Head else Item (i - 1)))"

definition list_item :: "'a list \<Rightarrow> list_link \<Rightarrow> nat option" where
  "list_item xs l = (case l of Head \<Rightarrow> None | Item i \<Rightarrow> (if i < length xs then Some i else None))"

definition upd_proc :: "nat \<Rightarrow> (proc_t \<Rightarrow> proc_t) \<Rightarrow> kernel \<Rightarrow> kernel" where
  "upd_proc p f s = s\<lparr>procs := (procs s)(p := f (procs s p))\<rparr>"

definition upd_thread :: "nat \<Rightarrow> (kthread_t \<Rightarrow> kthread_t) \<Rightarrow> kernel \<Rightarrow> kernel" where
  "upd_thread t f s = s\<lparr>threads := (threads s)(t := f (threads s t))\<rparr>"

text \<open>
  Modelled from the spec: \<^verbatim>\<open>proc/proc.c\<close>, \<^verbatim>\<open>proc/kthread.c\<close>, \<^verbatim>\<open>proc/sched.c\<close> and
  \<^verbatim>\<open>mm/pagetable.c\<close> are not among the sources. \<open>proc_create\<close> makes a process with a fresh
  pid, an empty thread list and a new page directory. \<open>pt_create_pagedir\<close> makes an empty
  page directory and \<open>pt_unmap_range\<close> removes the entries of a range of addresses.
  \<open>kthread_clone\<close> copies a thread and gives the copy a kernel stack of its own.
  \<open>sched_make_runnable\<close> puts a thread on the run queue. None of them fails here, so the
  \<^verbatim>\<open>KASSERT\<close> after each call in \<open>do_fork\<close> holds.
\<close>

definition pt_create_pagedir :: "kernel \<Rightarrow> nat \<times> kernel" where
  "pt_create_pagedir s =
     (next_pagedir s,
      s\<lparr>pagedirs := (pagedirs s)(next_pagedir s := {}), next_pagedir := next_pagedir s + 1\<rparr>)"

definition pt_unmap_range :: "nat \<Rightarrow> nat \<Rightarrow> nat \<Rightarrow> kernel \<Rightarrow> kernel" where
  "pt_unmap_range pd low high s =
     s\<lparr>pagedirs := (pagedirs s)(pd := pagedirs s pd - {ADDR_TO_PN low ..< ADDR_TO_PN high})\<rparr>"

definition proc_create :: "string \<Rightarrow> kernel \<Rightarrow> nat \<times> kernel" where
  "proc_create name s =
     (let (pd, s1) = pt_create_pagedir s
      in (next_pid s1,
          s1\<lparr>procs := (procs s1)(next_pid s1 :=
                \<lparr>p_pid = next_pid s1, p_comm = name, p_status = 0, p_state = PROC_RUNNING,
                 p_pagedir = pd, p_brk = 0, p_start_brk = 0, p_cwd = 0,
                 p_files = (\<lambda>fd. None), p_vmmap = [], p_threads = []\<rparr>),
              next_pid := next_pid s1 + 1\<rparr>))"

definition kthread_clone :: "headers \<Rightarrow> nat \<Rightarrow> kernel \<Rightarrow> nat \<times> kernel" where
  "kthread_clone h thr s =
     (next_thread s,
      s\<lparr>threads := (threads s)(next_thread s := (threads s thr)\<lparr>kt_kstack := next_kstack s\<rparr>),
        next_thread := next_thread s + 1,
        next_kstack := next_kstack s + DEFAULT_STACK_SIZE h\<rparr>)"

definition sched_make_runnable :: "nat \<Rightarrow> kernel \<Rightarrow> kernel" where
  "sched_make_runnable thr s = s\<lparr>runq := runq s @ [thr]\<rparr>"

text \<open>
  Modelled from the spec: \<open>vmmap_clone\<close> copies the area list; every copied area cites the memory object of
  the original, whose reference count is incremented. It interposes no shadow object.
\<close>

definition vmmap_clone :: "vmarea_t list \<Rightarrow> kernel \<Rightarrow> vmarea_t list \<times> kernel" where
  "vmmap_clone m s = (m, fold (\<lambda>a. mmobj_ref (vma_obj a)) m s)"

section \<open>kernel/vm/mmap.c\<close>

text \<open>
  The file follows \<^verbatim>\<open>boot.S\<close> in the source listing. An address and a length are
  unsigned 32-bit values, here natural numbers: \<open>do_mmap\<close> and \<open>do_munmap\<close> compare,
  mask and divide them and never add to them. The local \<^verbatim>\<open>new_area\<close> is not initialised
  by \<open>do_mmap\<close>; it is read as \<^verbatim>\<open>NULL\<close> when \<open>vmmap_map\<close> did not write it. On success
  the value stored through \<^verbatim>\<open>ret\<close> is the \<open>Inr\<close> result.
\<close>



definition do_munmap :: "headers \<Rightarrow> nat \<Rightarrow> nat \<Rightarrow> kernel \<Rightarrow> (error + nat) \<times> kernel" where
  "do_munmap h addr len s =
     (if \<not> PAGE_ALIGNED (int addr) \<or> \<not> PAGE_ALIGNED (int len) \<or> len = 0 then (Inl EINVAL, s)
      else if addr < USER_MEM_LOW h \<or> USER_MEM_HIGH h \<le> addr then (Inl EINVAL, s)
      else
        (let (status, s1) = vmmap_remove addr (len div PAGE_SIZE) s
         in (status, tlb_flush_range addr (len div PAGE_SIZE) s1)))"

section \<open>kernel/proc/fork.c\<close>

text \<open>
  A \<^verbatim>\<open>regs_t\<close> is the list of its 32-bit words. \<open>fork_setup_stack\<close> computes in
  \<^verbatim>\<open>uint32_t\<close>; it stores the address of the copy at \<open>esp + 4\<close> and the copy of the
  registers from \<open>esp + 8\<close> on.
\<close>

definition fork_setup_stack :: "headers \<Rightarrow> nat list \<Rightarrow> nat \<Rightarrow> kernel \<Rightarrow> nat \<times> kernel" where
  "fork_setup_stack h regs kstack s =
     (let esp = nat ((int kstack + int (DEFAULT_STACK_SIZE h) - int (sizeof_regs_t h + 12)) mod 2 ^ 32);
          m1 = (kmem s)(esp + 4 := esp + 8);
          m2 = fold (\<lambda>i m. m(esp + 8 + 4 * i := regs ! i))
                 [0 ..< min (length regs) (sizeof_regs_t h div 4)] m1
      in (esp, s\<lparr>kmem := m2\<rparr>))"

text \<open>
  The loop \<^verbatim>\<open>for (int i = 0; i < NFILES; ++i) fref(new_proc->p_files[i])\<close>, given the
  table as a list. \<open>fref\<close> dereferences its argument, so an empty slot halts the kernel.
\<close>

fun fref_all :: "nat option list \<Rightarrow> kernel \<Rightarrow> error + kernel" where
  "fref_all [] s = Inr s"
| "fref_all (None # fds) s = Inl PANIC"
| "fref_all (Some f # fds) s = fref_all fds (fref f s)"

text \<open>
  The body of the loop over the areas, for the area at position \<open>i\<close> of the parent and
  the area at position \<open>j\<close> of the child.
\<close>

definition fork_shadow_body :: "headers \<Rightarrow> nat \<Rightarrow> nat \<Rightarrow> nat \<Rightarrow> nat \<Rightarrow> kernel \<Rightarrow> kernel" where
  "fork_shadow_body h parent new_proc i j s =
     (let vma = p_vmmap (procs s parent) ! i
      in if vma_flags vma AND MAP_PRIVATE h \<noteq> 0 then
           (let (shadow, s1) = shadow_create s;
                (shadow2, s2) = shadow_create s1;
                s3 = s2\<lparr>mmobjs := (mmobjs s2)(shadow :=
                        (mmobjs s2 shadow)\<lparr>mmo_shadowed := Some (vma_obj vma)\<rparr>)\<rparr>;
                s4 = s3\<lparr>mmobjs := (mmobjs s3)(shadow2 :=
                        (mmobjs s3 shadow2)\<lparr>mmo_shadowed := Some (vma_obj vma)\<rparr>)\<rparr>;
                s5 = upd_proc parent (\<lambda>p. p\<lparr>p_vmmap := (p_vmmap p)[i :=
                        (p_vmmap p ! i)\<lparr>vma_obj := shadow\<rparr>]\<rparr>) s4
            in upd_proc new_proc (\<lambda>p. p\<lparr>p_vmmap := (p_vmmap p)[j :=
                        (p_vmmap p ! j)\<lparr>vma_obj := shadow2\<rparr>]\<rparr>) s5)
         else s)"

text \<open>
  The loop itself, from the values of \<^verbatim>\<open>link\<close> and \<^verbatim>\<open>link2\<close> on. It goes on while
  \<^verbatim>\<open>link\<close> differs from the \<^verbatim>\<open>l_next\<close> of the sentinel of the parent's list and
  \<^verbatim>\<open>link2\<close> differs from the \<^verbatim>\<open>l_next\<close> of the sentinel of the child's list; both links
  advance by \<^verbatim>\<open>l_next\<close>. Taking the element of the sentinel reads memory that is not an
  area: the model halts there. The result is \<open>None\<close> when the loop does not end.
\<close>

partial_function (option) fork_shadow_loop ::
  "headers \<Rightarrow> nat \<Rightarrow> nat \<Rightarrow> list_link \<Rightarrow> list_link \<Rightarrow> kernel \<Rightarrow> (error + kernel) option" where
  "fork_shadow_loop h parent new_proc link link2 s =
     (if link \<noteq> l_next (p_vmmap (procs s parent)) Head
         \<and> link2 \<noteq> l_next (p_vmmap (procs s new_proc)) Head
      then
        (case list_item (p_vmmap (procs s parent)) link of
           None \<Rightarrow> Some (Inl PANIC)
         | Some i \<Rightarrow>
             (case list_item (p_vmmap (procs s new_proc)) link2 of
                None \<Rightarrow> Some (Inl PANIC)
              | Some j \<Rightarrow>
                  fork_shadow_loop h parent new_proc
                    (l_next (p_vmmap (procs (fork_shadow_body h parent new_proc i j s) parent)) link)
                    (l_next (p_vmmap (procs (fork_shadow_body h parent new_proc i j s) new_proc)) link2)
                    (fork_shadow_body h parent new_proc i j s)))
      else Some (Inr s))"

text \<open>
  \<open>do_fork\<close>, block by block. First the block that sets up the new process, with the
  copy of the descriptor table. The \<^verbatim>\<open>memcpy\<close> of the table is modelled as the copy of
  the table (its length argument, \<^verbatim>\<open>sizeof(file_t)*NFILES\<close>, is that of a table of file
  objects, not of pointers; what lies behind the table is outside this model).
\<close>

definition fork_setup_proc :: "kernel \<Rightarrow> nat \<times> kernel" where
  "fork_setup_proc s =
     (let (new_proc, s1) = proc_create [] s;
          (clone, s2) = vmmap_clone (p_vmmap (procs s1 (curproc s1))) s1;
          s3 = upd_proc new_proc (\<lambda>p. p\<lparr>p_vmmap := clone\<rparr>) s2;
          s4 = upd_proc new_proc (\<lambda>p. p\<lparr>p_comm := p_comm (procs s3 (curproc s3)),
                 p_status := p_status (procs s3 (curproc s3)),
                 p_state := p_state (procs s3 (curproc s3))\<rparr>) s3;
          (pagedir, s5) = pt_create_pagedir s4;
          s6 = upd_proc new_proc (\<lambda>p. p\<lparr>p_pagedir := pagedir,
                 p_brk := p_brk (procs s5 (curproc s5)),
                 p_start_brk := p_start_brk (procs s5 (curproc s5)),
                 p_cwd := p_cwd (procs s5 (curproc s5))\<rparr>) s5
      in (new_proc, upd_proc new_proc (\<lambda>p. p\<lparr>p_files := p_files (procs s6 (curproc s6))\<rparr>) s6))"

text \<open>The block that sets up the context of the new thread and makes it runnable.\<close>

definition fork_setup_thread :: "headers \<Rightarrow> nat list \<Rightarrow> nat \<Rightarrow> kernel \<Rightarrow> kernel" where
  "fork_setup_thread h regs new_proc s =
     (let (new_thr, s1) = kthread_clone h (curthr s) s;
          s2 = upd_proc new_proc (\<lambda>p. p\<lparr>p_threads := p_threads p @ [new_thr]\<rparr>) s1;
          s3 = upd_thread new_thr (\<lambda>t. t\<lparr>kt_proc := new_proc\<rparr>) s2;
          s4 = upd_thread new_thr (\<lambda>t. t\<lparr>kt_ctx := (kt_ctx t)\<lparr>c_eip := userland_entry h\<rparr>\<rparr>) s3;
          (esp, s5) = fork_setup_stack h regs (kt_kstack (threads s4 new_thr)) s4;
          s6 = upd_thread new_thr (\<lambda>t. t\<lparr>kt_ctx := (kt_ctx t)\<lparr>c_esp := esp,
                  c_pdptr := p_pagedir (procs s5 new_proc),
                  c_kstack := kt_kstack t + DEFAULT_STACK_SIZE h,
                  c_kstacksz := DEFAULT_STACK_SIZE h\<rparr>\<rparr>) s5
      in sched_make_runnable new_thr s6)"

text \<open>
  The whole of \<open>do_fork\<close>: the new process, the reference counts, the loop over the
  areas, the unmapping of the user pages with the flush, the new thread, and
  \<^verbatim>\<open>return 0\<close>. The result is \<open>None\<close> when the loop over the areas does not end.
\<close>

definition do_fork :: "headers \<Rightarrow> nat list \<Rightarrow> kernel \<Rightarrow> ((error + nat) \<times> kernel) option" where
  "do_fork h regs s =
     (let (new_proc, s1) = fork_setup_proc s
      in case fref_all (map (p_files (procs s1 new_proc)) [0 ..< NFILES h]) s1 of
           Inl e \<Rightarrow> Some (Inl e, s1)
         | Inr s2 \<Rightarrow>
             (let s3 = vref (p_cwd (procs s2 (curproc s2))) s2
              in case fork_shadow_loop h (curproc s3) new_proc
                        (l_next (p_vmmap (procs s3 (curproc s3))) Head)
                        (l_prev (p_vmmap (procs s3 new_proc)) Head) s3 of
                   None \<Rightarrow> None
                 | Some (Inl e) \<Rightarrow> Some (Inl e, s3)
                 | Some (Inr s4) \<Rightarrow>
                     (let s5 = pt_unmap_range (p_pagedir (procs s4 (curproc s4)))
                                 (USER_MEM_LOW h) (USER_MEM_HIGH h) s4;
                          s6 = tlb_flush_all s5
                      in Some (Inr 0, fork_setup_thread h regs new_proc s6))))"

section \<open>kernel/fs/open.c\<close>

text \<open>The loop of \<open>get_empty_fd\<close> visits the descriptors from 0 up to \<open>NFILES - 1\<close>.\<close>

definition get_empty_fd :: "headers \<Rightarrow> proc_t \<Rightarrow> error + nat" where
  "get_empty_fd h p =
     (case find (\<lambda>fd. p_files p fd = None) [0 ..< NFILES h] of
        Some fd \<Rightarrow> Inr fd
      | None \<Rightarrow> Inl EMFILE)"

text \<open>
  \<open>open_namev\<close> (\<^verbatim>\<open>fs/namev.c\<close>) is not among the sources. It resolves a path to a vnode
  and hands the vnode back with a reference taken, or fails with a status other than
  zero. It is a parameter of \<open>do_open\<close> here: a function of the path, the flags and the
  working directory on the vnode table. Descriptor tables and file objects are out of its
  reach, as they are for path resolution.
\<close>

type_synonym namev = "string \<Rightarrow> int \<Rightarrow> nat \<Rightarrow> (nat \<Rightarrow> vnode_t) \<Rightarrow> (error + nat) \<times> (nat \<Rightarrow> vnode_t)"

definition do_open :: "headers \<Rightarrow> namev \<Rightarrow> string \<Rightarrow> int \<Rightarrow> kernel \<Rightarrow> (error + nat) \<times> kernel" where
  "do_open h open_namev filename oflags s =
     (case get_empty_fd h (procs s (curproc s)) of
        Inl e \<Rightarrow> (Inl EMFILE, s)
      | Inr new_fd \<Rightarrow>
          (case fget h (- 1) s of
             (None, s1) \<Rightarrow> (Inl ENOMEM, s1)
           | (Some f, s1) \<Rightarrow>
               (let s2 = set_files ((p_files (procs s1 (curproc s1)))(new_fd := Some f)) s1
                in case (if oflags AND 3 = O_RDONLY h then Inr (FMODE_READ h)
                         else if oflags AND 3 = O_WRONLY h then Inr (FMODE_WRITE h)
                         else if oflags AND 3 = O_RDWR h then Inr (FMODE_WRITE h OR FMODE_READ h)
                         else Inl EINVAL) of
                     Inl e \<Rightarrow> (Inl EINVAL, snd (do_close h (int new_fd) s2))
                   | Inr mode \<Rightarrow>
                       (let mode' = (if oflags AND O_APPEND h \<noteq> 0 then mode OR FMODE_APPEND h
                                     else mode);
                            s3 = s2\<lparr>files := (files s2)(f := (files s2 f)\<lparr>f_mode := mode'\<rparr>)\<rparr>;
                            (status, vns) =
                              open_namev filename oflags (p_cwd (procs s3 (curproc s3))) (vnodes s3);
                            s4 = s3\<lparr>vnodes := vns\<rparr>
                        in case status of
                             Inl e \<Rightarrow>
                               (let s5 = snd (do_close h (int new_fd) s4)
                                in (Inl e,
                                    set_files ((p_files (procs s5 (curproc s5)))(new_fd := None)) s5))
                           | Inr result \<Rightarrow>
                               if S_ISDIR (vn_mode (vnodes s4 result))
                                  \<and> f_mode (files s4 f) AND FMODE_WRITE h \<noteq> 0
                               then (Inl EISDIR, vput result (snd (do_close h (int new_fd) s4)))
                               else (Inr new_fd,
                                     s4\<lparr>files := (files s4)(f := (files s4 f)\<lparr>f_vnode := Some result\<rparr>)\<rparr>)))))"

section \<open>The S5FS state and the functions of \<^verbatim>\<open>s5fs_subr.c\<close>\<close>

text \<open>
  Modelled from the spec: \<^verbatim>\<open>fs/s5fs/s5fs.h\<close> is not among the sources. An inode has a type,
  a size in bytes, a link count, the direct block pointers and one indirect block
  pointer; a pointer of zero stands for a sparse block. Blocks have 4 KiB, so an indirect
  block holds 1024 pointers of 32 bits.
\<close>

datatype s5_type = S5_TYPE_FREE | S5_TYPE_DATA | S5_TYPE_DIR | S5_TYPE_CHR | S5_TYPE_BLK

record s5_inode_t =
  s5_type :: s5_type
  s5_size :: nat
  s5_linkcount :: nat
  s5_direct_blocks :: "nat \<Rightarrow> nat"
  s5_indirect_block :: nat

definition S5_BLOCK_SIZE :: nat where
  "S5_BLOCK_SIZE = 4096"

definition S5_NIDIRECT_BLOCKS :: nat where
  "S5_NIDIRECT_BLOCKS = S5_BLOCK_SIZE div 4"

text \<open>
  Modelled from the spec: the state of one mounted file system: the inode table, the free lists of the
  superblock, the pointer arrays held by the indirect blocks, the records of each
  directory (inode number and name; a record with inode number 0 is free), and the vnodes
  in memory. The vnode of an inode is addressed by the inode number; it is in memory when
  its reference count is not zero.
\<close>

record s5fs_t =
  s5f_inodes :: "nat \<Rightarrow> s5_inode_t"
  s5f_free_inodes :: "nat list"
  s5f_free_blocks :: "nat list"
  s5f_indirect :: "nat \<Rightarrow> nat \<Rightarrow> nat"
  s5f_dirs :: "nat \<Rightarrow> (nat \<times> string) list"
  s5f_vnodes :: "nat \<Rightarrow> vnode_t"

definition upd_inode :: "nat \<Rightarrow> (s5_inode_t \<Rightarrow> s5_inode_t) \<Rightarrow> s5fs_t \<Rightarrow> s5fs_t" where
  "upd_inode ino f s = s\<lparr>s5f_inodes := (s5f_inodes s)(ino := f (s5f_inodes s ino))\<rparr>"

definition upd_vnode :: "nat \<Rightarrow> (vnode_t \<Rightarrow> vnode_t) \<Rightarrow> s5fs_t \<Rightarrow> s5fs_t" where
  "upd_vnode v f s = s\<lparr>s5f_vnodes := (s5f_vnodes s)(v := f (s5f_vnodes s v))\<rparr>"

text \<open>
  Modelled from the spec: \<^verbatim>\<open>proc/kmutex.c\<close> is not among the sources. A thread that locks a
  mutex another holder has sleeps until it is released. The functions here are run by one
  thread on its own, so a call that finds the mutex held does not return: its result
  is \<open>None\<close>.
\<close>

definition kmutex_lock :: "nat \<Rightarrow> s5fs_t \<Rightarrow> s5fs_t option" where
  "kmutex_lock v s =
     (if vn_mutex (s5f_vnodes s v) then None else Some (upd_vnode v (\<lambda>n. n\<lparr>vn_mutex := True\<rparr>) s))"

definition kmutex_unlock :: "nat \<Rightarrow> s5fs_t \<Rightarrow> s5fs_t" where
  "kmutex_unlock v s = upd_vnode v (\<lambda>n. n\<lparr>vn_mutex := False\<rparr>) s"

text \<open>
  Modelled from the spec: \<^verbatim>\<open>fs/vnode.c\<close> is not among the sources. \<open>vget\<close> returns the one
  vnode of an inode and increments its reference count; a vnode that is not in memory is
  first filled in from the inode, and the reference of the VFS is reflected as one more
  link of the inode. \<open>vput_fs\<close> is \<open>vput\<close> on this state: it decrements the reference
  count.
\<close>

definition mode_of_type :: "s5_type \<Rightarrow> vmode" where
  "mode_of_type t =
     (case t of S5_TYPE_DIR \<Rightarrow> S_IFDIR | S5_TYPE_CHR \<Rightarrow> S_IFCHR | S5_TYPE_BLK \<Rightarrow> S_IFBLK
      | _ \<Rightarrow> S_IFREG)"

definition vget :: "nat \<Rightarrow> s5fs_t \<Rightarrow> nat \<times> s5fs_t" where
  "vget ino s =
     (if vn_refcount (s5f_vnodes s ino) = 0 then
        (ino,
         upd_inode ino (\<lambda>i. i\<lparr>s5_linkcount := s5_linkcount i + 1\<rparr>)
           (upd_vnode ino (\<lambda>n. n\<lparr>vn_refcount := 1,
              vn_mode := mode_of_type (s5_type (s5f_inodes s ino)),
              vn_len := s5_size (s5f_inodes s ino),
              vn_devid := s5_indirect_block (s5f_inodes s ino),
              vn_mutex := False\<rparr>) s))
      else (ino, upd_vnode ino (\<lambda>n. n\<lparr>vn_refcount := vn_refcount n + 1\<rparr>) s))"

definition vput_fs :: "nat \<Rightarrow> s5fs_t \<Rightarrow> s5fs_t" where
  "vput_fs v s = upd_vnode v (\<lambda>n. n\<lparr>vn_refcount := vn_refcount n - 1\<rparr>) s"

text \<open>
  Modelled from the spec: \<^verbatim>\<open>fs/s5fs/s5fs_subr.c\<close> is not among the sources.
  \<open>s5_seek_to_block\<close> translates a byte offset of a file into a disk block number. For a
  sparse block it returns 0 when \<open>alloc\<close> is false; when \<open>alloc\<close> is true it takes a block
  from the free list and installs it, in the direct table or in the indirect block, which
  is allocated first when the inode has none, and it fails with \<open>ENOSPC\<close> when the free
  list does not have the blocks. The spec names no other failure; an offset behind the
  last slot of the indirect block is answered with \<open>EINVAL\<close> here.
\<close>

definition s5_seek_to_block :: "headers \<Rightarrow> nat \<Rightarrow> nat \<Rightarrow> bool \<Rightarrow> s5fs_t \<Rightarrow> (error + nat) \<times> s5fs_t" where
  "s5_seek_to_block h vno off alloc s =
     (let idx = off div S5_BLOCK_SIZE; inode = s5f_inodes s vno
      in if idx < S5_NDIRECT_BLOCKS h then
           (if s5_direct_blocks inode idx \<noteq> 0 then (Inr (s5_direct_blocks inode idx), s)
            else if \<not> alloc then (Inr 0, s)
            else
              (case s5f_free_blocks s of
                 [] \<Rightarrow> (Inl ENOSPC, s)
               | b # free \<Rightarrow>
                   (Inr b,
                    upd_inode vno (\<lambda>i. i\<lparr>s5_direct_blocks := (s5_direct_blocks i)(idx := b)\<rparr>)
                      (s\<lparr>s5f_free_blocks := free\<rparr>))))
         else if idx < S5_NDIRECT_BLOCKS h + S5_NIDIRECT_BLOCKS then
           (let j = idx - S5_NDIRECT_BLOCKS h
            in if s5_indirect_block inode \<noteq> 0 then
                 (if s5f_indirect s (s5_indirect_block inode) j \<noteq> 0
                  then (Inr (s5f_indirect s (s5_indirect_block inode) j), s)
                  else if \<not> alloc then (Inr 0, s)
                  else
                    (case s5f_free_blocks s of
                       [] \<Rightarrow> (Inl ENOSPC, s)
                     | b # free \<Rightarrow>
                         (Inr b,
                          s\<lparr>s5f_free_blocks := free,
                            s5f_indirect := (s5f_indirect s)(s5_indirect_block inode :=
                              (s5f_indirect s (s5_indirect_block inode))(j := b))\<rparr>)))
               else if \<not> alloc then (Inr 0, s)
               else
                 (case s5f_free_blocks s of
                    ib # b # free \<Rightarrow>
                      (Inr b,
                       upd_inode vno (\<lambda>i. i\<lparr>s5_indirect_block := ib\<rparr>)
                         (s\<lparr>s5f_free_blocks := free,
                            s5f_indirect := (s5f_indirect s)(ib := (\<lambda>k. 0)(j := b))\<rparr>))
                  | _ \<Rightarrow> (Inl ENOSPC, s)))
         else (Inl EINVAL, s))"

text \<open>
  Modelled from the spec: \<open>s5_alloc_inode\<close> pops an inode from the free list of the superblock and initialises
  it: the type, no link, no byte, no block, and for a device the device id in the slot of
  the indirect block.
\<close>

definition s5_alloc_inode :: "s5_type \<Rightarrow> nat \<Rightarrow> s5fs_t \<Rightarrow> (error + nat) \<times> s5fs_t" where
  "s5_alloc_inode type devid s =
     (case s5f_free_inodes s of
        [] \<Rightarrow> (Inl ENOSPC, s)
      | ino # free \<Rightarrow>
          (Inr ino,
           s\<lparr>s5f_free_inodes := free,
             s5f_inodes := (s5f_inodes s)(ino :=
               \<lparr>s5_type = type, s5_size = 0, s5_linkcount = 0, s5_direct_blocks = (\<lambda>k. 0),
                s5_indirect_block = (if type = S5_TYPE_CHR \<or> type = S5_TYPE_BLK then devid else 0)\<rparr>),
             s5f_dirs := (s5f_dirs s)(ino := [])\<rparr>))"

text \<open>
  Modelled from the spec: a name is a pointer to characters with a length, and the name
  meant is \<open>take namelen name\<close>. \<open>name_match\<close> compares a string with such a name.
\<close>

definition name_match :: "string \<Rightarrow> string \<Rightarrow> nat \<Rightarrow> bool" where
  "name_match fname name namelen = (fname = take namelen name)"

text \<open>
  Modelled from the spec: \<open>s5_find_dirent\<close> scans the records of a directory in order for a live record with the
  name. \<open>s5_link\<close> enters a record for the target and increments the link count of the
  target; the record \<^verbatim>\<open>.\<close> of a directory for itself does not count as a link.
  \<open>s5_remove_dirent\<close> frees the record of the name and decrements the link count of the
  inode it referred to.
\<close>

definition s5_find_dirent :: "nat \<Rightarrow> string \<Rightarrow> nat \<Rightarrow> s5fs_t \<Rightarrow> error + nat" where
  "s5_find_dirent dir name namelen s =
     (case find (\<lambda>(ino, fname). ino \<noteq> 0 \<and> name_match fname name namelen) (s5f_dirs s dir) of
        None \<Rightarrow> Inl ENOENT
      | Some (ino, fname) \<Rightarrow> Inr ino)"

definition s5_link :: "nat \<Rightarrow> nat \<Rightarrow> string \<Rightarrow> nat \<Rightarrow> s5fs_t \<Rightarrow> (error + nat) \<times> s5fs_t" where
  "s5_link dir target name namelen s =
     (let s1 = s\<lparr>s5f_dirs := (s5f_dirs s)(dir := s5f_dirs s dir @ [(target, take namelen name)])\<rparr>
      in (Inr 0,
          if target = dir then s1
          else upd_inode target (\<lambda>i. i\<lparr>s5_linkcount := s5_linkcount i + 1\<rparr>) s1))"

definition s5_remove_dirent :: "nat \<Rightarrow> string \<Rightarrow> nat \<Rightarrow> s5fs_t \<Rightarrow> (error + nat) \<times> s5fs_t" where
  "s5_remove_dirent dir name namelen s =
     (case s5_find_dirent dir name namelen s of
        Inl e \<Rightarrow> (Inl e, s)
      | Inr ino \<Rightarrow>
          (Inr 0,
           upd_inode ino (\<lambda>i. i\<lparr>s5_linkcount := s5_linkcount i - 1\<rparr>)
             (s\<lparr>s5f_dirs := (s5f_dirs s)(dir :=
                  map (\<lambda>(i, fname). if i \<noteq> 0 \<and> name_match fname name namelen then (0, fname)
                                     else (i, fname)) (s5f_dirs s dir))\<rparr>)))"

text \<open>
  Modelled from the spec: the bytes of a directory file. Each record is the inode number in four bytes, least
  significant first, and the name, padded with zero bytes to \<open>S5_NAME_LEN\<close>.
\<close>

definition s5_dirent_bytes :: "headers \<Rightarrow> nat \<times> string \<Rightarrow> string" where
  "s5_dirent_bytes h d =
     [char_of (fst d), char_of (fst d div 256), char_of (fst d div 65536), char_of (fst d div 16777216)]
     @ take (S5_NAME_LEN h) (snd d @ replicate (S5_NAME_LEN h) (CHR 0x00))"

definition s5_dir_bytes :: "headers \<Rightarrow> (nat \<times> string) list \<Rightarrow> string" where
  "s5_dir_bytes h ds = concat (map (s5_dirent_bytes h) ds)"

text \<open>
  Modelled from the spec: \<open>s5_read_file\<close> copies up to \<open>len\<close> bytes of a file from an offset on into a buffer and
  returns the number of bytes copied, which is 0 at the end of the file. In this model
  the files with contents are the directories. An offset is a status here as well, since
  \<open>s5fs_rmdir\<close> passes the value \<open>s5fs_readdir\<close> returned on as an offset; a negative one is
  answered with \<open>EINVAL\<close>.
\<close>

definition s5_read_file :: "headers \<Rightarrow> nat \<Rightarrow> error + nat \<Rightarrow> string \<Rightarrow> nat \<Rightarrow> s5fs_t \<Rightarrow> (error + nat) \<times> string" where
  "s5_read_file h vno offset buf len s =
     (case offset of
        Inl e \<Rightarrow> (Inl EINVAL, buf)
      | Inr off \<Rightarrow>
          (let bytes = take len (drop off (s5_dir_bytes h (s5f_dirs s vno)))
           in (Inr (length bytes), bytes @ drop (length bytes) buf)))"

section \<open>kernel/fs/s5fs/s5fs.c\<close>

text \<open>
  The vnode operations return \<open>None\<close> when they do not return: a mutex is held, or a loop
  does not end. A vnode is passed as the number of its inode. Where an operation hands a
  vnode back through \<^verbatim>\<open>result\<close>, the value stored is the second component of what it
  returns, \<open>None\<close> when nothing was stored; the pointer \<^verbatim>\<open>result\<close> itself is not
  \<^verbatim>\<open>NULL\<close>.
\<close>

definition s5fs_create ::
  "headers \<Rightarrow> nat \<Rightarrow> string \<Rightarrow> nat \<Rightarrow> s5fs_t \<Rightarrow> ((error + nat) \<times> nat option \<times> s5fs_t) option" where
  "s5fs_create h dir name namelen s =
     (if namelen > S5_NAME_LEN h then Some (Inl ENAMETOOLONG, None, s)
      else do {
        s1 \<leftarrow> kmutex_lock dir s;
        (case s5_alloc_inode S5_TYPE_DATA (vn_devid (s5f_vnodes s1 dir)) s1 of
           (Inl e, s2) \<Rightarrow> Some (Inl e, None, kmutex_unlock dir s2)
         | (Inr ino, s2) \<Rightarrow>
             (let (vnode, s3) = vget ino s2;
                  (status, s4) = s5_link dir vnode name namelen s3;
                  s5 = kmutex_unlock dir s4
              in if vn_refcount (s5f_vnodes s5 vnode) = 1 then Some (status, Some vnode, s5)
                 else Some (Inl PANIC, Some vnode, s5)))
      })"

definition s5fs_mknod ::
  "headers \<Rightarrow> nat \<Rightarrow> string \<Rightarrow> nat \<Rightarrow> vmode \<Rightarrow> nat \<Rightarrow> s5fs_t \<Rightarrow> ((error + nat) \<times> s5fs_t) option" where
  "s5fs_mknod h dir name namelen mode devid s =
     (if namelen > S5_NAME_LEN h then Some (Inl ENAMETOOLONG, s)
      else do {
        s1 \<leftarrow> kmutex_lock dir s;
        (case (if S_ISCHR mode then Some S5_TYPE_CHR
               else if S_ISBLK mode then Some S5_TYPE_BLK else None) of
           None \<Rightarrow> Some (Inl PANIC, s1)
         | Some type \<Rightarrow>
             (case s5_alloc_inode type devid s1 of
                (Inl e, s2) \<Rightarrow> Some (Inl e, kmutex_unlock dir s2)
              | (Inr ino, s2) \<Rightarrow>
                  (let (vnode, s3) = vget ino s2;
                       (status, s4) = s5_link dir vnode name namelen s3
                   in Some (status, kmutex_unlock dir s4))))
      })"

definition s5fs_lookup ::
  "headers \<Rightarrow> nat \<Rightarrow> string \<Rightarrow> nat \<Rightarrow> s5fs_t \<Rightarrow> ((error + nat) \<times> nat option \<times> s5fs_t) option" where
  "s5fs_lookup h base name namelen s =
     (if namelen > S5_NAME_LEN h then Some (Inl ENAMETOOLONG, None, s)
      else do {
        s1 \<leftarrow> kmutex_lock base s;
        (case s5_find_dirent base name namelen s1 of
           Inl e \<Rightarrow> Some (Inl e, None, kmutex_unlock base s1)
         | Inr ino \<Rightarrow>
             (let (vnode, s2) = vget ino s1
              in Some (Inr 0, Some vnode, kmutex_unlock base s2)))
      })"

definition s5fs_link ::
  "headers \<Rightarrow> nat \<Rightarrow> nat \<Rightarrow> string \<Rightarrow> nat \<Rightarrow> s5fs_t \<Rightarrow> ((error + nat) \<times> s5fs_t) option" where
  "s5fs_link h src dir name namelen s =
     (if namelen > S5_NAME_LEN h then Some (Inl ENAMETOOLONG, s)
      else do {
        s1 \<leftarrow> kmutex_lock src s;
        s2 \<leftarrow> kmutex_lock dir s1;
        (let (status, s3) = s5_link dir src name namelen s2
         in Some (status, kmutex_unlock dir (kmutex_unlock src s3)))
      })"

definition s5fs_unlink ::
  "headers \<Rightarrow> nat \<Rightarrow> string \<Rightarrow> nat \<Rightarrow> s5fs_t \<Rightarrow> ((error + nat) \<times> s5fs_t) option" where
  "s5fs_unlink h dir name namelen s =
     (if namelen > S5_NAME_LEN h then Some (Inl ENAMETOOLONG, s)
      else do {
        s1 \<leftarrow> kmutex_lock dir s;
        (let (status, s2) = s5_remove_dirent dir name namelen s1
         in Some (status, kmutex_unlock dir s2))
      })"

definition s5fs_mkdir ::
  "headers \<Rightarrow> nat \<Rightarrow> string \<Rightarrow> nat \<Rightarrow> s5fs_t \<Rightarrow> ((error + nat) \<times> s5fs_t) option" where
  "s5fs_mkdir h dir name namelen s =
     (if namelen > S5_NAME_LEN h then Some (Inl ENAMETOOLONG, s)
      else do {
        s1 \<leftarrow> kmutex_lock dir s;
        (case s5_alloc_inode S5_TYPE_DIR (vn_devid (s5f_vnodes s1 dir)) s1 of
           (Inl e, s2) \<Rightarrow> Some (Inl e, kmutex_unlock dir s2)
         | (Inr ino, s2) \<Rightarrow>
             (let (new_dir, s3) = vget ino s2;
                  (status, s4) = s5_link dir new_dir name namelen s3
              in if status \<noteq> Inr 0 then Some (status, kmutex_unlock dir (vput_fs new_dir s4))
                 else
                   (let (status, s5) = s5_link new_dir new_dir ''.'' 1 s4
                    in if status \<noteq> Inr 0 then Some (status, kmutex_unlock dir s5)
                       else
                         (let (status, s6) = s5_link new_dir dir ''..'' 2 s5
                          in if status \<noteq> Inr 0 then Some (status, kmutex_unlock dir s6)
                             else
                               (let s7 = kmutex_unlock dir s6
                                in if vn_refcount (s5f_vnodes s7 new_dir) = 2
                                   then Some (status, s7)
                                   else Some (Inl PANIC, s7))))))
      })"

text \<open>\<open>s5fs_readdir\<close> reads \<^verbatim>\<open>sizeof(dirent_t)\<close> bytes of the directory file into \<^verbatim>\<open>d\<close>.\<close>

definition s5fs_readdir ::
  "headers \<Rightarrow> nat \<Rightarrow> error + nat \<Rightarrow> string \<Rightarrow> s5fs_t \<Rightarrow> ((error + nat) \<times> string \<times> s5fs_t) option" where
  "s5fs_readdir h vnode offset d s =
     do {
       s1 \<leftarrow> kmutex_lock vnode s;
       (let (status, d') = s5_read_file h vnode offset d (sizeof_dirent_t h) s1
        in Some (status, d', kmutex_unlock vnode s1))
     }"

text \<open>
  The field \<^verbatim>\<open>d_name\<close> of a \<^verbatim>\<open>dirent_t\<close> held in a buffer, as the string \<^verbatim>\<open>strcmp\<close> sees:
  the bytes from the offset of the field up to the first zero byte.
\<close>

definition d_name :: "headers \<Rightarrow> string \<Rightarrow> string" where
  "d_name h entry = takeWhile (\<lambda>c. c \<noteq> CHR 0x00) (drop (offsetof_d_name h) entry)"

text \<open>
  The loop of \<open>s5fs_rmdir\<close> that looks for a live entry, from the value of \<^verbatim>\<open>offset\<close> and
  the contents of \<^verbatim>\<open>entry\<close> on:
  \<^verbatim>\<open>for (int offset = s5fs_readdir(vn, 0, &entry); offset; s5fs_readdir(vn, offset, &entry))\<close>.
  The step of the loop calls \<open>s5fs_readdir\<close> and drops what it returns; \<^verbatim>\<open>offset\<close> keeps its
  value. The result is \<open>True\<close> when the loop leaves through \<^verbatim>\<open>return -ENOTEMPTY\<close> and
  \<open>False\<close> when its condition ends it.
\<close>

partial_function (option) s5fs_rmdir_loop ::
  "headers \<Rightarrow> nat \<Rightarrow> error + nat \<Rightarrow> string \<Rightarrow> s5fs_t \<Rightarrow> (bool \<times> s5fs_t) option" where
  "s5fs_rmdir_loop h vn offset entry s =
     (if offset \<noteq> Inr 0 then
        (if d_name h entry \<noteq> ''.'' \<and> d_name h entry \<noteq> ''..'' \<and> d_name h entry \<noteq> []
         then Some (True, s)
         else
           (case s5fs_readdir h vn offset entry s of
              None \<Rightarrow> None
            | Some (status, entry', s') \<Rightarrow> s5fs_rmdir_loop h vn offset entry' s'))
      else Some (False, s))"

text \<open>
  \<open>s5fs_rmdir\<close>. The local \<^verbatim>\<open>entry\<close> is not initialised; the bytes it holds when the
  function is entered are an argument.
\<close>

definition s5fs_rmdir ::
  "headers \<Rightarrow> nat \<Rightarrow> string \<Rightarrow> nat \<Rightarrow> string \<Rightarrow> s5fs_t \<Rightarrow> ((error + nat) \<times> s5fs_t) option" where
  "s5fs_rmdir h parent name namelen entry s =
     (if namelen > S5_NAME_LEN h then Some (Inl ENAMETOOLONG, s)
      else if name_match ''.'' name namelen \<or> name_match ''..'' name namelen then Some (Inl PANIC, s)
      else do {
        s1 \<leftarrow> kmutex_lock parent s;
        (case s5_find_dirent parent name namelen s1 of
           Inl e \<Rightarrow> Some (Inl e, kmutex_unlock parent s1)
         | Inr ino \<Rightarrow>
             (let (vn, s2) = vget ino s1
              in if \<not> S_ISDIR (vn_mode (s5f_vnodes s2 parent))
                 then Some (Inl ENOTDIR, kmutex_unlock parent (vput_fs vn s2))
                 else do {
                   (offset, entry1, s3) \<leftarrow> s5fs_readdir h vn (Inr 0) entry s2;
                   (nonempty, s4) \<leftarrow> s5fs_rmdir_loop h vn offset entry1 s3;
                   (if nonempty then Some (Inl ENOTEMPTY, kmutex_unlock parent (vput_fs vn s4))
                    else
                      (let (status, s5) = s5_remove_dirent vn ''..'' 2 s4
                       in if status \<noteq> Inr 0 then Some (status, kmutex_unlock parent s5)
                          else
                            (let (status, s6) = s5_remove_dirent parent name namelen s5
                             in Some (status, kmutex_unlock parent s6))))
                 }))
      })"

text \<open>
  Modelled from the spec: \<^verbatim>\<open>util/string.c\<close> is not among the sources. \<open>memset\<close> sets the
  first \<open>n\<close> bytes of a buffer.
\<close>

definition memset :: "string \<Rightarrow> char \<Rightarrow> nat \<Rightarrow> string" where
  "memset buf c n = replicate (min n (length buf)) c @ drop n buf"

text \<open>
  The page hooks. \<^verbatim>\<open>vnode->vn_bdev->bd_ops->read_block\<close> is a function pointer: the
  operation is an argument here, a function of the block number and the buffer that
  gives a status and the buffer as the device left it. The assertion on the alignment of
  the address of the buffer has no counterpart; a buffer is the list of its bytes.
\<close>

definition s5fs_fillpage ::
  "headers \<Rightarrow> (nat \<Rightarrow> string \<Rightarrow> (error + nat) \<times> string) \<Rightarrow> nat \<Rightarrow> nat \<Rightarrow> string \<Rightarrow> s5fs_t
     \<Rightarrow> ((error + nat) \<times> string \<times> s5fs_t) option" where
  "s5fs_fillpage h read_block vnode offset pagebuf s =
     do {
       s1 \<leftarrow> kmutex_lock vnode s;
       (case s5_seek_to_block h vnode offset False s1 of
          (Inl e, s2) \<Rightarrow> Some (Inl e, pagebuf, kmutex_unlock vnode s2)
        | (Inr block_no, s2) \<Rightarrow>
            (let (status, buf) =
                   (if block_no \<noteq> 0 then read_block block_no pagebuf
                    else (Inr 0, memset pagebuf (CHR 0x00) S5_BLOCK_SIZE))
             in Some (status, buf, kmutex_unlock vnode s2)))
     }"

definition s5fs_dirtypage :: "headers \<Rightarrow> nat \<Rightarrow> nat \<Rightarrow> s5fs_t \<Rightarrow> ((error + nat) \<times> s5fs_t) option" where
  "s5fs_dirtypage h vnode offset s =
     do {
       s1 \<leftarrow> kmutex_lock vnode s;
       (case s5_seek_to_block h vnode offset False s1 of
          (Inl e, s2) \<Rightarrow> Some (Inl e, kmutex_unlock vnode s2)
        | (Inr 0, s2) \<Rightarrow> Some (Inr 0, kmutex_unlock vnode s2)
        | (Inr block_no, s2) \<Rightarrow>
            (let (status, s3) = s5_seek_to_block h vnode offset True s2
             in Some (status, kmutex_unlock vnode s3)))
     }"

section \<open>Concrete inputs\<close>

text \<open>
  The values that the Weenix headers give the macros, and small kernel states; the
  evaluations at concrete inputs below use them.
\<close>

definition weenix_h :: headers where
  "weenix_h =
     \<lparr>USER_MEM_LOW = 0x00400000, USER_MEM_HIGH = 0xc0000000,
      MAP_SHARED = 1, MAP_PRIVATE = 2, MAP_ANON = 8, PROT_WRITE = 2,
      FMODE_READ = 1, FMODE_WRITE = 2, FMODE_APPEND = 4,
      O_RDONLY = 0, O_WRONLY = 1, O_RDWR = 2, O_APPEND = 0x400,
      NFILES = 32, DEFAULT_STACK_SIZE = 0x10000, sizeof_regs_t = 68,
      userland_entry = 0xc0001000,
      S5_NAME_LEN = 28, S5_NDIRECT_BLOCKS = 28, sizeof_dirent_t = 40, offsetof_d_name = 8\<rparr>"

definition proc0 :: proc_t where
  "proc0 =
     \<lparr>p_pid = 1, p_comm = ''init'', p_status = 0, p_state = PROC_RUNNING, p_pagedir = 0,
      p_brk = 0, p_start_brk = 0, p_cwd = 0, p_files = (\<lambda>fd. None), p_vmmap = [],
      p_threads = [0]\<rparr>"

text \<open>A process without open files and without mappings.\<close>

definition kernel0 :: kernel where
  "kernel0 =
     \<lparr>curproc = 1, curthr = 0, procs = (\<lambda>pid. proc0), next_pid = 2,
      threads = (\<lambda>t. \<lparr>kt_kstack = 0xc0100000, kt_proc = 1, kt_ctx =
        \<lparr>c_eip = 0, c_esp = 0, c_pdptr = 0, c_kstack = 0xc0110000, c_kstacksz = 0x10000\<rparr>\<rparr>),
      next_thread = 1, next_kstack = 0xc0200000, kmem = (\<lambda>a. 0), runq = [],
      files = (\<lambda>f. \<lparr>f_mode = 0, f_pos = 0, f_refcount = 0, f_vnode = None\<rparr>),
      file_allocator = [0, 1],
      vnodes = (\<lambda>v. \<lparr>vn_refcount = 1, vn_mode = S_IFDIR, vn_mmobj = 0, vn_len = 0,
        vn_devid = 0, vn_mutex = False\<rparr>),
      mmobjs = (\<lambda>ob. \<lparr>mmo_refcount = 1, mmo_shadowed = None\<rparr>),
      next_mmobj = 2, pagedirs = (\<lambda>pd. {}), next_pagedir = 1, tlb = {}\<rparr>"

text \<open>A path resolution that finds vnode 7 and takes a reference on it.\<close>

definition namev7 :: namev where
  "namev7 filename oflags cwd vns = (Inr 7, vns(7 := (vns 7)\<lparr>vn_refcount := vn_refcount (vns 7) + 1\<rparr>))"

text \<open>The same process with one private area of two pages at the bottom of the user range.\<close>

definition kernel1 :: kernel where
  "kernel1 =
     set_vmmap [\<lparr>vma_start = 0x400, vma_end = 0x402, vma_off = 0, vma_prot = 3,
                 vma_flags = 2, vma_obj = 1\<rparr>] kernel0"

text \<open>
  A process with a private area of two pages on memory object 1 and a shared area of one
  page on memory object 0, all of whose descriptors refer to file object 5.
\<close>

definition kernel_fork :: kernel where
  "kernel_fork =
     (set_vmmap [\<lparr>vma_start = 0x400, vma_end = 0x402, vma_off = 0, vma_prot = 3,
                  vma_flags = 2, vma_obj = 1\<rparr>,
                 \<lparr>vma_start = 0x500, vma_end = 0x501, vma_off = 0, vma_prot = 3,
                  vma_flags = 1, vma_obj = 0\<rparr>]
        (set_files (\<lambda>fd. Some 5) kernel0))
     \<lparr>files := (files kernel0)(5 := \<lparr>f_mode = 3, f_pos = 0, f_refcount = 32, f_vnode = Some 3\<rparr>)\<rparr>"

text \<open>
  A file system whose root directory 1 holds the directory \<^verbatim>\<open>d\<close>, inode 2, which holds
  \<^verbatim>\<open>.\<close>, \<^verbatim>\<open>..\<close> and the live entry \<^verbatim>\<open>f\<close>. No inode has a block, two blocks are free,
  every vnode is in memory and no mutex is held.
\<close>

definition fs0 :: s5fs_t where
  "fs0 =
     \<lparr>s5f_inodes = (\<lambda>i. \<lparr>s5_type = S5_TYPE_DIR, s5_size = 96, s5_linkcount = 2,
         s5_direct_blocks = (\<lambda>k. 0), s5_indirect_block = 0\<rparr>),
      s5f_free_inodes = [7, 8], s5f_free_blocks = [100, 101],
      s5f_indirect = (\<lambda>b k. 0),
      s5f_dirs = (\<lambda>i. if i = 1 then [(1, ''.''), (1, ''..''), (2, ''d'')]
                      else if i = 2 then [(2, ''.''), (1, ''..''), (3, ''f'')] else []),
      s5f_vnodes = (\<lambda>v. \<lparr>vn_refcount = 1, vn_mode = S_IFDIR, vn_mmobj = 0, vn_len = 96,
         vn_devid = 0, vn_mutex = False\<rparr>)\<rparr>"

text \<open>The state in which \<open>s5fs_rmdir\<close> of \<^verbatim>\<open>d\<close> reads directory 2.\<close>

definition fs0_locked :: s5fs_t where
  "fs0_locked = upd_vnode 2 (\<lambda>n. n\<lparr>vn_refcount := vn_refcount n + 1\<rparr>)
                  (upd_vnode 1 (\<lambda>n. n\<lparr>vn_mutex := True\<rparr>) fs0)"

text \<open>The same file system with block 42 as the first block of inode 5.\<close>

definition fs1 :: s5fs_t where
  "fs1 = upd_inode 5 (\<lambda>i. i\<lparr>s5_direct_blocks := (s5_direct_blocks i)(0 := 42)\<rparr>) fs0"

text \<open>The same file system with every mutex held.\<close>

definition fs_busy :: s5fs_t where
  "fs_busy = fs0\<lparr>s5f_vnodes := (\<lambda>v. (s5f_vnodes fs0 v)\<lparr>vn_mutex := True\<rparr>)\<rparr>"

text \<open>A block device that fills a buffer with the letter \<^verbatim>\<open>d\<close>.\<close>

definition read_block_d :: "nat \<Rightarrow> string \<Rightarrow> (error + nat) \<times> string" where
  "read_block_d block_no buf = (Inr 0, replicate (length buf) (CHR ''d''))"

section \<open>Theorems\<close>

subsection \<open>The multiboot header\<close>

lemma word32_sum3_zero:
  fixes a b c :: "32 word"
  assumes "a + b + c = 0"
  shows "(unat a + unat b + unat c) mod 2 ^ 32 = 0"
proof -
  have "unat (a + b + c) = (unat a + unat b + unat c) mod 2 ^ 32"
    by (simp add: unat_word_ariths mod_simps del: One_nat_def)
  with assms show ?thesis by simp
qed

lemma word_of_int_or:
  "(word_of_int (x OR y) :: 32 word) = word_of_int x OR word_of_int y"
  by (rule bit_word_eqI) (simp add: bit_simps)

text \<open>
  C9. The multiboot header consists of three words: the magic number, then the flags word
  \<^verbatim>\<open>MULTIBOOT_PAGE_ALIGN | MULTIBOOT_MEMORY_INFO\<close>, then a checksum word, and the three
  words add up to zero modulo \<open>2 ^ 32\<close>. This holds for every value of the three macros.
\<close>

theorem multiboot_header_words:
  "multiboot_section magic page_align memory_info =
     [word_of_int magic, word_of_int page_align OR word_of_int memory_info,
      - (word_of_int magic + (word_of_int page_align OR word_of_int memory_info))]
   \<and> (unat (multiboot_section magic page_align memory_info ! 0)
        + unat (multiboot_section magic page_align memory_info ! 1)
        + unat (multiboot_section magic page_align memory_info ! 2)) mod 2 ^ 32 = 0"
proof -
  let ?m = "word_of_int magic :: 32 word"
  let ?f = "word_of_int page_align OR word_of_int memory_info :: 32 word"
  have f: "word_of_int (page_align OR memory_info) = ?f"
    by (rule word_of_int_or)
  have words: "multiboot_section magic page_align memory_info = [?m, ?f, - (?m + ?f)]"
    by (simp add: multiboot_section_def long_def FLAGS_def CHECKSUM_def f)
  have "?m + ?f + (- (?m + ?f)) = 0"
    by simp
  then have "(unat ?m + unat ?f + unat (- (?m + ?f))) mod 2 ^ 32 = 0"
    by (rule word32_sum3_zero)
  with words show ?thesis
    by simp
qed

subsection \<open>mmap and munmap\<close>

lemma vmmap_map_EINVAL:
  "fst (vmmap_map h vnode lopage npages prot flags off dir s) = Inl EINVAL \<longleftrightarrow>
     lopage \<noteq> 0 \<and> (lopage < ADDR_TO_PN (USER_MEM_LOW h) \<or> ADDR_TO_PN (USER_MEM_HIGH h) < lopage + npages)"
  by (auto simp: vmmap_map_def Let_def split_def split: option.splits sum.splits)

lemma pages_lt_iff:
  assumes "(a::nat) mod 4096 = 0" "(l::nat) mod 4096 = 0"
  shows "H div 4096 < a div 4096 + l div 4096 \<longleftrightarrow> H < a + l"
proof -
  from assms obtain i j where a: "a = 4096 * i" and l: "l = 4096 * j"
    by (auto simp: mod_eq_0_iff_dvd elim!: dvdE)
  have "H div 4096 < i + j \<longleftrightarrow> H < (i + j) * 4096"
    by (rule div_less_iff_less_mult) simp
  then show ?thesis
    by (simp add: a l algebra_simps)
qed

lemma PAGE_ALIGNED_nat: "PAGE_ALIGNED (int n) \<Longrightarrow> n mod 4096 = 0"
proof -
  assume "PAGE_ALIGNED (int n)"
  then have "int (n mod 4096) = 0"
    by (simp add: PAGE_ALIGNED_def PAGE_SIZE_def zmod_int)
  then show ?thesis
    by simp
qed

lemma page_range_EINVAL:
  assumes "PAGE_ALIGNED (int addr)" "PAGE_ALIGNED (int len)" "addr \<noteq> 0" "USER_MEM_LOW h \<le> addr"
  shows "(ADDR_TO_PN addr \<noteq> 0 \<and> (ADDR_TO_PN addr < ADDR_TO_PN (USER_MEM_LOW h)
          \<or> ADDR_TO_PN (USER_MEM_HIGH h) < ADDR_TO_PN addr + len div PAGE_SIZE))
         \<longleftrightarrow> USER_MEM_HIGH h < addr + len"
proof -
  have a: "addr mod 4096 = 0" and l: "len mod 4096 = 0"
    using assms(1,2) by (simp_all add: PAGE_ALIGNED_nat)
  from a assms(3) have nz: "addr div 4096 \<noteq> 0"
    by auto
  from assms(4) have lo: "\<not> addr div 4096 < USER_MEM_LOW h div 4096"
    by (simp add: div_le_mono not_less)
  from nz lo pages_lt_iff [OF a l, of "USER_MEM_HIGH h"] show ?thesis
    by (simp add: ADDR_TO_PN_def PAGE_SIZE_def)
qed




text \<open>
  With the \<open>vmmap_map\<close> of the specification the last case is the one of a range that
  starts in the user range and ends behind it.
\<close>

lemma vmmap_map_range_end:
  assumes "PAGE_ALIGNED (int addr)" and "PAGE_ALIGNED (int len)" and "addr \<noteq> 0"
    and "USER_MEM_LOW h \<le> addr"
  shows "fst (vmmap_map h vnode (ADDR_TO_PN addr) (len div PAGE_SIZE) prot flags off dir s) = Inl EINVAL
           \<longleftrightarrow> USER_MEM_HIGH h < addr + len"
  using page_range_EINVAL [OF assms] by (simp add: vmmap_map_EINVAL)



lemma vmmap_remove_areas_within:
  "lo \<le> hi \<Longrightarrow> b \<in> set (fst (vmmap_remove_areas lo hi as s))
     \<Longrightarrow> \<exists>a\<in>set as. vma_start a \<le> vma_start b \<and> vma_end b \<le> vma_end a"
  by (induction as arbitrary: s) (auto simp: split_def Let_def split: if_splits)

lemma vmmap_remove_areas_procs:
  "procs (snd (vmmap_remove_areas lo hi as s)) = procs s
   \<and> curproc (snd (vmmap_remove_areas lo hi as s)) = curproc s"
  by (induction as arbitrary: s) (auto simp: split_def Let_def mmobj_ref_def mmobj_put_def)

lemma vmmap_remove_status: "fst (vmmap_remove lopage npages s) = Inr 0"
  by (simp add: vmmap_remove_def split_def Let_def)

lemma vmmap_remove_vmmap:
  "p_vmmap (procs (snd (vmmap_remove lopage npages s)) (curproc (snd (vmmap_remove lopage npages s))))
     = fst (vmmap_remove_areas lopage (lopage + npages) (p_vmmap (procs s (curproc s))) s)"
  by (simp add: vmmap_remove_def split_def Let_def set_vmmap_def vmmap_remove_areas_procs)

lemma vmmap_lookup_None_remove:
  assumes "vmmap_lookup m vfn = None" and "lo \<le> hi"
  shows "vmmap_lookup (fst (vmmap_remove_areas lo hi m s)) vfn = None"
proof -
  have "\<not> (vma_start b \<le> vfn \<and> vfn < vma_end b)"
    if "b \<in> set (fst (vmmap_remove_areas lo hi m s))" for b
  proof -
    from vmmap_remove_areas_within [OF assms(2) that] obtain a
      where a: "a \<in> set m" "vma_start a \<le> vma_start b" "vma_end b \<le> vma_end a"
      by blast
    from assms a(1) have "\<not> (vma_start a \<le> vfn \<and> vfn < vma_end a)"
      by (auto simp: vmmap_lookup_def find_None_iff)
    with a(2,3) show ?thesis
      by linarith
  qed
  then show ?thesis
    by (auto simp: vmmap_lookup_def find_None_iff)
qed

text \<open>
  C8. For a page-aligned address and a page-aligned length other than zero whose range
  lies in the user range, \<open>do_munmap\<close> returns 0, a second call on the same range returns
  0 as well, and every page that was not mapped before the call is not mapped after it.
\<close>

theorem do_munmap_unmapped_range:
  assumes "PAGE_ALIGNED (int addr)" and "PAGE_ALIGNED (int len)" and "len \<noteq> 0"
    and "USER_MEM_LOW h \<le> addr" and "addr + len \<le> USER_MEM_HIGH h"
  shows "fst (do_munmap h addr len s) = Inr 0
     \<and> fst (do_munmap h addr len (snd (do_munmap h addr len s))) = Inr 0
     \<and> (\<forall>vfn. vmmap_lookup (p_vmmap (procs s (curproc s))) vfn = None \<longrightarrow>
           vmmap_lookup (p_vmmap (procs (snd (do_munmap h addr len s))
              (curproc (snd (do_munmap h addr len s))))) vfn = None)"
proof -
  from assms(3,5) have hi: "\<not> USER_MEM_HIGH h \<le> addr"
    by simp
  have eq: "do_munmap h addr len t =
      (fst (vmmap_remove addr (len div PAGE_SIZE) t),
       tlb_flush_range addr (len div PAGE_SIZE) (snd (vmmap_remove addr (len div PAGE_SIZE) t)))" for t
    using assms(1-4) hi by (simp add: do_munmap_def split_def Let_def)
  have st: "fst (do_munmap h addr len t) = Inr 0" for t
    by (simp add: eq vmmap_remove_status)
  have "vmmap_lookup (p_vmmap (procs (snd (do_munmap h addr len s))
              (curproc (snd (do_munmap h addr len s))))) vfn = None"
    if "vmmap_lookup (p_vmmap (procs s (curproc s))) vfn = None" for vfn
    using vmmap_lookup_None_remove [OF that, of addr "addr + len div PAGE_SIZE" s]
    by (simp add: eq tlb_flush_range_def vmmap_remove_vmmap)
  with st show ?thesis
    by blast
qed

lemma kernel1_range:
  "PAGE_ALIGNED (int 0x401000) \<and> PAGE_ALIGNED (int 0x2000) \<and> (0x2000::nat) \<noteq> 0
   \<and> USER_MEM_LOW weenix_h \<le> 0x401000 \<and> (0x401000::nat) + 0x2000 \<le> USER_MEM_HIGH weenix_h"
  by (simp add: PAGE_ALIGNED_def PAGE_SIZE_def weenix_h_def)

theorem do_munmap_unmapped_range_witness:
  "fst (do_munmap weenix_h 0x401000 0x2000 kernel1) = Inr 0
   \<and> fst (do_munmap weenix_h 0x401000 0x2000 (snd (do_munmap weenix_h 0x401000 0x2000 kernel1))) = Inr 0
   \<and> vmmap_lookup (p_vmmap (procs kernel1 (curproc kernel1))) 0x402 = None
   \<and> vmmap_lookup (p_vmmap (procs (snd (do_munmap weenix_h 0x401000 0x2000 kernel1))
              (curproc (snd (do_munmap weenix_h 0x401000 0x2000 kernel1))))) 0x402 = None"
proof -
  have un: "vmmap_lookup (p_vmmap (procs kernel1 (curproc kernel1))) 0x402 = None"
    by (simp add: kernel1_def kernel0_def proc0_def set_vmmap_def vmmap_lookup_def)
  from kernel1_range have
    "PAGE_ALIGNED (int 0x401000)" "PAGE_ALIGNED (int 0x2000)" "(0x2000::nat) \<noteq> 0"
    "USER_MEM_LOW weenix_h \<le> 0x401000" "(0x401000::nat) + 0x2000 \<le> USER_MEM_HIGH weenix_h"
    by blast+
  from do_munmap_unmapped_range [OF this, of kernel1] un show ?thesis
    by blast
qed


subsection \<open>open\<close>

lemma get_empty_fd_Inr:
  "get_empty_fd h p = Inr fd \<Longrightarrow> fd < NFILES h \<and> p_files p fd = None"
  by (auto simp: get_empty_fd_def find_Some_iff split: option.splits)

lemma fget_fresh:
  "fget h (- 1) s = (Some f, s1) \<Longrightarrow>
     file_allocator s = f # file_allocator s1 \<and> procs s1 = procs s \<and> curproc s1 = curproc s
     \<and> vnodes s1 = vnodes s
     \<and> files s1 = (files s)(f := \<lparr>f_mode = 0, f_pos = 0, f_refcount = 1, f_vnode = None\<rparr>)"
  by (auto simp: fget_def fref_def split: list.splits)

lemma fget_fresh_None: "fget h (- 1) s = (None, s1) \<Longrightarrow> s1 = s"
  by (auto simp: fget_def split: list.splits)

lemma do_close_reserved:
  assumes "fd < NFILES h" and "p_files (procs s (curproc s)) fd = None"
    and "procs t = (procs s)(curproc s := (procs s (curproc s))
            \<lparr>p_files := (p_files (procs s (curproc s)))(fd := Some f)\<rparr>)"
    and "curproc t = curproc s" and "f_refcount (files t f) = 1" and "f_vnode (files t f) = None"
  shows "procs (snd (do_close h (int fd) t)) = procs s"
    and "curproc (snd (do_close h (int fd) t)) = curproc s"
    and "file_allocator (snd (do_close h (int fd) t)) = f # file_allocator t"
    and "g \<noteq> f \<Longrightarrow> files (snd (do_close h (int fd) t)) g = files t g"
    and "vnodes (snd (do_close h (int fd) t)) = vnodes t"
proof -
  have fd: "\<not> (int fd < 0 \<or> int (NFILES h) \<le> int fd)"
    using assms(1) by simp
  have slot: "p_files (procs t (curproc t)) fd = Some f"
    using assms(3,4) by simp
  have close: "snd (do_close h (int fd) t) =
      set_files ((p_files (procs (fput f t) (curproc (fput f t))))(fd := None)) (fput f t)"
    unfolding do_close_def if_not_P [OF fd] using slot by (simp add: Let_def)
  have put: "fput f t = t\<lparr>files := (files t)(f := (files t f)\<lparr>f_refcount := 0\<rparr>),
                          file_allocator := f # file_allocator t\<rparr>"
    using assms(5,6) by (simp add: fput_def Let_def)
  have "(p_files (procs s (curproc s)))(fd := None) = p_files (procs s (curproc s))"
    using assms(2) by (simp add: fun_upd_idem)
  then show "procs (snd (do_close h (int fd) t)) = procs s"
    unfolding close put by (simp add: set_files_def assms(3,4))
  show "curproc (snd (do_close h (int fd) t)) = curproc s"
    unfolding close put by (simp add: set_files_def assms(4))
  show "file_allocator (snd (do_close h (int fd) t)) = f # file_allocator t"
    unfolding close put by (simp add: set_files_def)
  show "g \<noteq> f \<Longrightarrow> files (snd (do_close h (int fd) t)) g = files t g"
    unfolding close put by (simp add: set_files_def)
  show "vnodes (snd (do_close h (int fd) t)) = vnodes t"
    unfolding close put by (simp add: set_files_def)
qed


lemma vput_fields:
  "procs (vput v t) = procs t" "curproc (vput v t) = curproc t"
  "file_allocator (vput v t) = file_allocator t" "files (vput v t) = files t"
  "vnodes (vput v t) = (vnodes t)(v := (vnodes t v)\<lparr>vn_refcount := vn_refcount (vnodes t v) - 1\<rparr>)"
  by (simp_all add: vput_def)

text \<open>
  C6. Whenever \<open>do_open\<close> returns an error, the process table with its descriptor tables is
  as before the call, the file allocator is as before the call (the file object is back in
  it), no file object that was in use has changed, and the vnode table is untouched, or as
  \<open>open_namev\<close> left it when it failed, or as \<open>open_namev\<close> left it with the reference to
  the vnode it found dropped again.
\<close>

theorem do_open_error_releases:
  assumes "do_open h open_namev filename oflags s = (Inl e, s')"
  shows "procs s' = procs s \<and> curproc s' = curproc s
     \<and> file_allocator s' = file_allocator s
     \<and> (\<forall>f. f \<notin> set (file_allocator s) \<longrightarrow> files s' f = files s f)
     \<and> (vnodes s' = vnodes s
        \<or> (case open_namev filename oflags (p_cwd (procs s (curproc s))) (vnodes s) of
             (Inl e', vns) \<Rightarrow> vnodes s' = vns
           | (Inr result, vns) \<Rightarrow>
               vnodes s' = vns(result := (vns result)\<lparr>vn_refcount := vn_refcount (vns result) - 1\<rparr>)))"
proof (cases "get_empty_fd h (procs s (curproc s))")
  case (Inl e1)
  with assms have "s' = s"
    by (simp add: do_open_def)
  then show ?thesis
    by simp
next
  case (Inr new_fd)
  from get_empty_fd_Inr [OF Inr]
  have fd: "new_fd < NFILES h" and empty: "p_files (procs s (curproc s)) new_fd = None"
    by simp_all
  obtain fo s1 where fg: "fget h (- 1) s = (fo, s1)"
    by (cases "fget h (- 1) s")
  show ?thesis
  proof (cases fo)
    case None
    with assms Inr fg have "s' = s1"
      by (simp add: do_open_def)
    moreover from fg None have "s1 = s"
      by (simp add: fget_fresh_None)
    ultimately show ?thesis
      by simp
  next
    case (Some f)
    from fget_fresh fg Some
    have alloc: "file_allocator s = f # file_allocator s1"
      and procs1: "procs s1 = procs s" and cur1: "curproc s1 = curproc s"
      and vn1: "vnodes s1 = vnodes s"
      and files1: "files s1 = (files s)(f := \<lparr>f_mode = 0, f_pos = 0, f_refcount = 1, f_vnode = None\<rparr>)"
      by simp_all
    let ?s2 = "set_files ((p_files (procs s1 (curproc s1)))(new_fd := Some f)) s1"
    have procs2: "procs ?s2 = (procs s)(curproc s := (procs s (curproc s))
            \<lparr>p_files := (p_files (procs s (curproc s)))(new_fd := Some f)\<rparr>)"
      and cur2: "curproc ?s2 = curproc s" and files2: "files ?s2 = files s1"
      and vn2: "vnodes ?s2 = vnodes s" and alloc2: "file_allocator ?s2 = file_allocator s1"
      by (simp_all add: set_files_def procs1 cur1 vn1)
    let ?mode = "if oflags AND 3 = O_RDONLY h then Inr (FMODE_READ h)
                 else if oflags AND 3 = O_WRONLY h then Inr (FMODE_WRITE h)
                 else if oflags AND 3 = O_RDWR h then Inr (FMODE_WRITE h OR FMODE_READ h)
                 else (Inl EINVAL :: error + int)"
    have outside: "files t g = files s g"
      if "g \<notin> set (file_allocator s)" and "\<And>g. g \<noteq> f \<Longrightarrow> files t g = files s1 g" for t g
    proof -
      from that(1) alloc have "g \<noteq> f"
        by auto
      with that(2) files1 show ?thesis
        by simp
    qed
    note start = Inr fg [unfolded Some]
    show ?thesis
    proof (cases ?mode)
      case (Inl e2)
      from assms have s': "s' = snd (do_close h (int new_fd) ?s2)"
        unfolding do_open_def
        by (simp only: start Inl Let_def sum.case prod.case option.case prod.inject simp_thms)
      have ref2: "f_refcount (files ?s2 f) = 1" "f_vnode (files ?s2 f) = None"
        by (simp_all add: files2 files1)
      note cl = do_close_reserved [OF fd empty procs2 cur2 ref2]
      have "g \<noteq> f \<Longrightarrow> files s' g = files s1 g" for g
        using cl(4) [of g] by (simp add: s' files2)
      from cl(1,2,3,5) outside [of _ s', OF _ this] show ?thesis
        by (simp add: s' alloc alloc2 vn2)
    next
      case (Inr mode)
      let ?mode' = "if oflags AND O_APPEND h \<noteq> 0 then mode OR FMODE_APPEND h else mode"
      let ?s3 = "?s2\<lparr>files := (files ?s2)(f := (files ?s2 f)\<lparr>f_mode := ?mode'\<rparr>)\<rparr>"
      obtain status vns
        where nv: "open_namev filename oflags (p_cwd (procs ?s3 (curproc ?s3))) (vnodes ?s3) = (status, vns)"
        by (cases "open_namev filename oflags (p_cwd (procs ?s3 (curproc ?s3))) (vnodes ?s3)")
      let ?s4 = "?s3\<lparr>vnodes := vns\<rparr>"
      have cwd3: "p_cwd (procs ?s3 (curproc ?s3)) = p_cwd (procs s (curproc s))"
        and vn3: "vnodes ?s3 = vnodes s"
        by (simp_all add: set_files_def procs1 cur1 vn1)
      have procs4: "procs ?s4 = (procs s)(curproc s := (procs s (curproc s))
            \<lparr>p_files := (p_files (procs s (curproc s)))(new_fd := Some f)\<rparr>)"
        and cur4: "curproc ?s4 = curproc s"
        and ref4: "f_refcount (files ?s4 f) = 1" "f_vnode (files ?s4 f) = None"
        and files4: "\<And>g. g \<noteq> f \<Longrightarrow> files ?s4 g = files s1 g"
        and vn4: "vnodes ?s4 = vns" and alloc4: "file_allocator ?s4 = file_allocator s1"
        by (simp_all add: set_files_def procs1 cur1 files1)
      note cl = do_close_reserved [OF fd empty procs4 cur4 ref4]
      let ?s5 = "snd (do_close h (int new_fd) ?s4)"
      have files5: "g \<noteq> f \<Longrightarrow> files ?s5 g = files s1 g" for g
        using cl(4) [of g] files4 [of g] by simp
      note nv' = nv [unfolded cwd3 vn3]
      show ?thesis
      proof (cases status)
        case (Inl e3)
        from assms
        have "s' = set_files ((p_files (procs ?s5 (curproc ?s5)))(new_fd := None)) ?s5"
          unfolding do_open_def
          by (simp only: start \<open>?mode = Inr mode\<close> nv Inl Let_def sum.case prod.case option.case
              prod.inject simp_thms)
        then have s': "s' = ?s5"
          using cl(1,2) empty by (simp add: set_files_def fun_upd_idem)
        have "g \<noteq> f \<Longrightarrow> files s' g = files s1 g" for g
          using files5 [of g] by (simp add: s')
        from cl(1,2,3,5) outside [of _ s', OF _ this] show ?thesis
          by (simp add: s' alloc alloc4 vn4 nv' Inl)
      next
        case (Inr result)
        from assms
        have "(if S_ISDIR (vn_mode (vnodes ?s4 result)) \<and> f_mode (files ?s4 f) AND FMODE_WRITE h \<noteq> 0
               then (Inl EISDIR, vput result ?s5)
               else (Inr new_fd,
                     ?s4\<lparr>files := (files ?s4)(f := (files ?s4 f)\<lparr>f_vnode := Some result\<rparr>)\<rparr>))
              = (Inl e, s')"
          unfolding do_open_def
          by (simp only: start \<open>?mode = Inr mode\<close> nv Inr Let_def sum.case prod.case option.case)
        then have s': "s' = vput result ?s5"
          by (simp split: if_splits)
        have "g \<noteq> f \<Longrightarrow> files s' g = files s1 g" for g
          using files5 [of g] by (simp add: s' vput_fields)
        from cl(1,2,3,5) outside [of _ s', OF _ this] show ?thesis
          by (simp add: s' vput_fields alloc alloc4 vn4 nv' Inr)
      qed
    qed
  qed
qed


lemma get_empty_fd_first:
  "0 < NFILES h \<Longrightarrow> p_files p 0 = None \<Longrightarrow> get_empty_fd h p = Inr 0"
  by (simp add: get_empty_fd_def upt_conv_Cons)

theorem do_open_error_releases_witness:
  "fst (do_open weenix_h namev7 ''/'' 1 kernel0) = Inl EISDIR
   \<and> procs (snd (do_open weenix_h namev7 ''/'' 1 kernel0)) = procs kernel0
   \<and> file_allocator (snd (do_open weenix_h namev7 ''/'' 1 kernel0)) = [0, 1]
   \<and> vn_refcount (vnodes (snd (do_open weenix_h namev7 ''/'' 1 kernel0)) 7) = 1"
proof -
  have fd: "get_empty_fd weenix_h (procs kernel0 (curproc kernel0)) = Inr 0"
    by (rule get_empty_fd_first) (simp_all add: weenix_h_def kernel0_def proc0_def)
  have ev: "fst (do_open weenix_h namev7 ''/'' 1 kernel0) = Inl EISDIR"
    unfolding do_open_def fd
    by (simp add: weenix_h_def kernel0_def proc0_def fget_def fref_def set_files_def namev7_def
        S_ISDIR_def Let_def)
  then have "do_open weenix_h namev7 ''/'' 1 kernel0
      = (Inl EISDIR, snd (do_open weenix_h namev7 ''/'' 1 kernel0))"
    by (simp add: prod_eq_iff)
  from do_open_error_releases [OF this] ev show ?thesis
    by (auto simp: kernel0_def proc0_def namev7_def)
qed

subsection \<open>fork\<close>

lemma fork_shadow_loop_skipped:
  "fork_shadow_loop h parent new_proc (l_next (p_vmmap (procs s parent)) Head) link2 s = Some (Inr s)"
  by (subst fork_shadow_loop.simps) simp

lemma fref_all_files:
  "fref_all fds s = Inr s' \<Longrightarrow> s' = s\<lparr>files := files s'\<rparr>"
proof (induction fds s rule: fref_all.induct)
  case (1 s)
  then show ?case by simp
next
  case (2 fds s)
  then show ?case by simp
next
  case (3 f fds s)
  from 3 have "s' = (fref f s)\<lparr>files := files s'\<rparr>"
    by simp
  then show ?case
    by (simp add: fref_def)
qed

lemma fold_mmobj_ref:
  "fold (\<lambda>a. mmobj_ref (vma_obj a)) m s = s\<lparr>mmobjs := mmobjs (fold (\<lambda>a. mmobj_ref (vma_obj a)) m s)\<rparr>
   \<and> mmo_shadowed (mmobjs (fold (\<lambda>a. mmobj_ref (vma_obj a)) m s) ob) = mmo_shadowed (mmobjs s ob)"
proof (induction m arbitrary: s)
  case Nil
  then show ?case by simp
next
  case (Cons a m)
  from Cons [of "mmobj_ref (vma_obj a) s"] show ?case
    by (simp add: mmobj_ref_def)
qed

lemma fold_mmobj_ref_count:
  "mmo_refcount (mmobjs (fold (\<lambda>a. mmobj_ref (vma_obj a)) m s) ob)
     = mmo_refcount (mmobjs s ob) + count_list (map vma_obj m) ob"
  by (induction m arbitrary: s) (simp_all add: mmobj_ref_def)

lemma vmmap_clone_frame:
  "fst (vmmap_clone m s) = m"
  "procs (snd (vmmap_clone m s)) = procs s"
  "curproc (snd (vmmap_clone m s)) = curproc s"
  "next_mmobj (snd (vmmap_clone m s)) = next_mmobj s"
  "next_pagedir (snd (vmmap_clone m s)) = next_pagedir s"
  "next_thread (snd (vmmap_clone m s)) = next_thread s"
  "mmo_shadowed (mmobjs (snd (vmmap_clone m s)) ob) = mmo_shadowed (mmobjs s ob)"
  "mmo_refcount (mmobjs (snd (vmmap_clone m s)) ob)
     = mmo_refcount (mmobjs s ob) + count_list (map vma_obj m) ob"
proof -
  note f = fold_mmobj_ref [of m s ob]
  from f have eq: "snd (vmmap_clone m s) = s\<lparr>mmobjs := mmobjs (snd (vmmap_clone m s))\<rparr>"
    by (simp add: vmmap_clone_def)
  show "fst (vmmap_clone m s) = m"
    by (simp add: vmmap_clone_def)
  show "procs (snd (vmmap_clone m s)) = procs s"
    by (subst eq) simp
  show "curproc (snd (vmmap_clone m s)) = curproc s"
    by (subst eq) simp
  show "next_mmobj (snd (vmmap_clone m s)) = next_mmobj s"
    by (subst eq) simp
  show "next_pagedir (snd (vmmap_clone m s)) = next_pagedir s"
    by (subst eq) simp
  show "next_thread (snd (vmmap_clone m s)) = next_thread s"
    by (subst eq) simp
  show "mmo_shadowed (mmobjs (snd (vmmap_clone m s)) ob) = mmo_shadowed (mmobjs s ob)"
    using f by (simp add: vmmap_clone_def)
  show "mmo_refcount (mmobjs (snd (vmmap_clone m s)) ob)
     = mmo_refcount (mmobjs s ob) + count_list (map vma_obj m) ob"
    by (simp add: vmmap_clone_def fold_mmobj_ref_count)
qed

lemma fork_setup_proc_frame:
  assumes "next_pid s \<noteq> curproc s"
  shows "fst (fork_setup_proc s) = next_pid s"
    and "curproc (snd (fork_setup_proc s)) = curproc s"
    and "procs (snd (fork_setup_proc s)) (curproc s) = procs s (curproc s)"
    and "p_vmmap (procs (snd (fork_setup_proc s)) (next_pid s)) = p_vmmap (procs s (curproc s))"
    and "next_mmobj (snd (fork_setup_proc s)) = next_mmobj s"
    and "mmo_shadowed (mmobjs (snd (fork_setup_proc s)) ob) = mmo_shadowed (mmobjs s ob)"
    and "p_pid (procs (snd (fork_setup_proc s)) (next_pid s)) = next_pid s"
    and "next_thread (snd (fork_setup_proc s)) = next_thread s"
    and "mmo_refcount (mmobjs (snd (fork_setup_proc s)) ob)
           = mmo_refcount (mmobjs s ob) + count_list (map vma_obj (p_vmmap (procs s (curproc s)))) ob"
  using assms
  by (simp_all add: fork_setup_proc_def Let_def split_def proc_create_def pt_create_pagedir_def
      upd_proc_def vmmap_clone_frame)

lemma fork_setup_thread_frame:
  "procs (fork_setup_thread h regs new_proc s) p = (procs s p)
      \<lparr>p_threads := p_threads (procs (fork_setup_thread h regs new_proc s) p)\<rparr>"
  "curproc (fork_setup_thread h regs new_proc s) = curproc s"
  "next_mmobj (fork_setup_thread h regs new_proc s) = next_mmobj s"
  "mmobjs (fork_setup_thread h regs new_proc s) = mmobjs s"
  by (simp_all add: fork_setup_thread_def Let_def split_def kthread_clone_def upd_proc_def
      upd_thread_def fork_setup_stack_def sched_make_runnable_def)


lemma do_fork_Some:
  assumes "do_fork h regs s = Some (Inr r, s')"
  obtains s2 where
    "fref_all (map (p_files (procs (snd (fork_setup_proc s)) (fst (fork_setup_proc s))))
        [0 ..< NFILES h]) (snd (fork_setup_proc s)) = Inr s2"
    and "r = 0"
    and "s' = fork_setup_thread h regs (fst (fork_setup_proc s))
          (tlb_flush_all (pt_unmap_range
             (p_pagedir (procs (vref (p_cwd (procs s2 (curproc s2))) s2)
                (curproc (vref (p_cwd (procs s2 (curproc s2))) s2))))
             (USER_MEM_LOW h) (USER_MEM_HIGH h) (vref (p_cwd (procs s2 (curproc s2))) s2)))"
proof (cases "fref_all (map (p_files (procs (snd (fork_setup_proc s)) (fst (fork_setup_proc s))))
        [0 ..< NFILES h]) (snd (fork_setup_proc s))")
  case (Inl e)
  with assms show ?thesis
    by (simp add: do_fork_def split_def)
next
  case (Inr s2)
  have "curproc (vref v t) = curproc t" for v t
    by (simp add: vref_def)
  with assms Inr that [of s2] show ?thesis
    by (simp add: do_fork_def split_def Let_def fork_shadow_loop_skipped)
qed

text \<open>
  C1 does not hold of the code. The loop over the areas starts with \<^verbatim>\<open>link\<close> at the \<^verbatim>\<open>l_next\<close>
  of the sentinel and goes on only while \<^verbatim>\<open>link\<close> differs from that same value, so its body
  never runs (\<open>fork_shadow_loop_skipped\<close>). Whenever \<open>do_fork\<close> succeeds, every area of
  the parent and of the child cites the memory object the parent's area cited before the
  call, private or not; no memory object has been created; no object shadows another
  that it did not shadow before; and the reference count of an object has grown by one
  for each area of the parent that cites it, which is the doing of \<open>vmmap_clone\<close>.
\<close>

theorem do_fork_interposes_nothing:
  assumes "do_fork h regs s = Some (Inr r, s')" and "next_pid s \<noteq> curproc s"
  shows "map vma_obj (p_vmmap (procs s' (curproc s))) = map vma_obj (p_vmmap (procs s (curproc s)))
       \<and> map vma_obj (p_vmmap (procs s' (next_pid s))) = map vma_obj (p_vmmap (procs s (curproc s)))
       \<and> next_mmobj s' = next_mmobj s
       \<and> (\<forall>ob. mmo_shadowed (mmobjs s' ob) = mmo_shadowed (mmobjs s ob)
              \<and> mmo_refcount (mmobjs s' ob) = mmo_refcount (mmobjs s ob)
                  + count_list (map vma_obj (p_vmmap (procs s (curproc s)))) ob)"
proof -
  let ?s1 = "snd (fork_setup_proc s)"
  from assms(1) obtain s2 where
    refs: "fref_all (map (p_files (procs ?s1 (fst (fork_setup_proc s)))) [0 ..< NFILES h]) ?s1 = Inr s2"
    and s': "s' = fork_setup_thread h regs (fst (fork_setup_proc s))
          (tlb_flush_all (pt_unmap_range
             (p_pagedir (procs (vref (p_cwd (procs s2 (curproc s2))) s2)
                (curproc (vref (p_cwd (procs s2 (curproc s2))) s2))))
             (USER_MEM_LOW h) (USER_MEM_HIGH h) (vref (p_cwd (procs s2 (curproc s2))) s2)))"
    by (rule do_fork_Some)
  note s2 = fref_all_files [OF refs]
  note fr = fork_setup_proc_frame [OF assms(2)]
  have procs2: "procs s2 = procs ?s1" and obj2: "mmobjs s2 = mmobjs ?s1"
    and next2: "next_mmobj s2 = next_mmobj ?s1"
    by (subst s2, simp)+
  have vm: "p_vmmap (procs s' p) = p_vmmap (procs ?s1 p)" for p
    unfolding s'
    by (subst fork_setup_thread_frame(1))
      (simp add: tlb_flush_all_def pt_unmap_range_def vref_def procs2)
  have "next_mmobj s' = next_mmobj s"
    unfolding s'
    by (simp add: fork_setup_thread_frame tlb_flush_all_def pt_unmap_range_def vref_def next2 fr)
  moreover have "mmo_shadowed (mmobjs s' ob) = mmo_shadowed (mmobjs s ob)" for ob
    unfolding s'
    by (simp add: fork_setup_thread_frame tlb_flush_all_def pt_unmap_range_def vref_def obj2 fr)
  moreover have "mmo_refcount (mmobjs s' ob) = mmo_refcount (mmobjs s ob)
                  + count_list (map vma_obj (p_vmmap (procs s (curproc s)))) ob" for ob
    unfolding s'
    by (simp add: fork_setup_thread_frame tlb_flush_all_def pt_unmap_range_def vref_def obj2 fr)
  ultimately show ?thesis
    by (simp add: vm fr)
qed

lemma fold_copy_words:
  "i < n \<Longrightarrow> fold (\<lambda>i m. m(base + 4 * i := regs ! i)) [0 ..< n] m0 (base + 4 * i) = regs ! i"
  by (induction n) (auto simp: less_Suc_eq)

lemma fork_setup_thread_frame_copy:
  assumes "i < min (length regs) (sizeof_regs_t h div 4)"
  shows "kmem (fork_setup_thread h regs new_proc s)
           (c_esp (kt_ctx (threads (fork_setup_thread h regs new_proc s) (next_thread s))) + 8 + 4 * i)
         = regs ! i"
  using fold_copy_words [OF assms]
  by (simp add: fork_setup_thread_def Let_def split_def kthread_clone_def upd_proc_def
      upd_thread_def fork_setup_stack_def sched_make_runnable_def)

text \<open>
  C2 does not hold of the code. Whenever \<open>do_fork\<close> succeeds it returns 0 to its caller,
  the parent, while the new process has the fresh pid and the new thread belongs to it;
  and the register frame on the stack of the new thread is a word-for-word copy of the
  registers \<open>do_fork\<close> was given, none of which it has set to 0.
\<close>

theorem do_fork_returns_zero:
  assumes "do_fork h regs s = Some (Inr r, s')" and "next_pid s \<noteq> curproc s"
  shows "r = 0 \<and> p_pid (procs s' (next_pid s)) = next_pid s
     \<and> kt_proc (threads s' (next_thread s)) = next_pid s
     \<and> (\<forall>i < min (length regs) (sizeof_regs_t h div 4).
           kmem s' (c_esp (kt_ctx (threads s' (next_thread s))) + 8 + 4 * i) = regs ! i)"
proof -
  let ?s1 = "snd (fork_setup_proc s)"
  from assms(1) obtain s2 where
    refs: "fref_all (map (p_files (procs ?s1 (fst (fork_setup_proc s)))) [0 ..< NFILES h]) ?s1 = Inr s2"
    and r: "r = 0"
    and s': "s' = fork_setup_thread h regs (fst (fork_setup_proc s))
          (tlb_flush_all (pt_unmap_range
             (p_pagedir (procs (vref (p_cwd (procs s2 (curproc s2))) s2)
                (curproc (vref (p_cwd (procs s2 (curproc s2))) s2))))
             (USER_MEM_LOW h) (USER_MEM_HIGH h) (vref (p_cwd (procs s2 (curproc s2))) s2)))"
    by (rule do_fork_Some)
  note s2 = fref_all_files [OF refs]
  have procs2: "procs s2 = procs ?s1" and thr2: "next_thread s2 = next_thread ?s1"
    by (subst s2, simp)+
  note fr = fork_setup_proc_frame [OF assms(2)]
  note pid1 = fr(7) and thr1 = fr(8) and new = fr(1)
  have "p_pid (procs s' (next_pid s)) = next_pid s"
    unfolding s'
    by (subst fork_setup_thread_frame(1))
      (simp add: tlb_flush_all_def pt_unmap_range_def vref_def procs2 pid1)
  moreover have "kt_proc (threads s' (next_thread s)) = next_pid s"
    unfolding s' new
    by (simp add: fork_setup_thread_def Let_def split_def kthread_clone_def upd_proc_def
      upd_thread_def fork_setup_stack_def sched_make_runnable_def
      tlb_flush_all_def pt_unmap_range_def vref_def thr2 thr1)
  moreover have "kmem s' (c_esp (kt_ctx (threads s' (next_thread s))) + 8 + 4 * i) = regs ! i"
    if "i < min (length regs) (sizeof_regs_t h div 4)" for i
    using fork_setup_thread_frame_copy [OF that, of "fst (fork_setup_proc s)"
        "tlb_flush_all (pt_unmap_range
             (p_pagedir (procs (vref (p_cwd (procs s2 (curproc s2))) s2)
                (curproc (vref (p_cwd (procs s2 (curproc s2))) s2))))
             (USER_MEM_LOW h) (USER_MEM_HIGH h) (vref (p_cwd (procs s2 (curproc s2))) s2))"]
    unfolding s' [symmetric]
    by (simp add: tlb_flush_all_def pt_unmap_range_def vref_def thr2 thr1)
  ultimately show ?thesis
    using r by simp
qed


lemma fref_all_open:
  "\<forall>x\<in>set fds. x \<noteq> None \<Longrightarrow> \<exists>s'. fref_all fds s = Inr s'"
  by (induction fds s rule: fref_all.induct) simp_all

lemma do_fork_succeeds:
  assumes "\<forall>fd. p_files (procs s (curproc s)) fd \<noteq> None" and "next_pid s \<noteq> curproc s"
  shows "\<exists>s'. do_fork h regs s = Some (Inr 0, s')"
proof -
  let ?s1 = "snd (fork_setup_proc s)"
  have "p_files (procs ?s1 (fst (fork_setup_proc s))) = p_files (procs s (curproc s))"
    using assms(2)
    by (simp add: fork_setup_proc_def Let_def split_def proc_create_def pt_create_pagedir_def
      upd_proc_def vmmap_clone_frame)
  with assms(1) have "\<forall>x\<in>set (map (p_files (procs ?s1 (fst (fork_setup_proc s)))) [0 ..< NFILES h]). x \<noteq> None"
    by simp
  from fref_all_open [OF this] obtain s2 where
    "fref_all (map (p_files (procs ?s1 (fst (fork_setup_proc s)))) [0 ..< NFILES h]) ?s1 = Inr s2"
    by blast
  then show ?thesis
    by (simp add: do_fork_def split_def Let_def fork_shadow_loop_skipped vref_def)
qed

lemma kernel_fork_ready:
  "(\<forall>fd. p_files (procs kernel_fork (curproc kernel_fork)) fd \<noteq> None)
   \<and> next_pid kernel_fork \<noteq> curproc kernel_fork \<and> curproc kernel_fork = 1
   \<and> next_pid kernel_fork = 2 \<and> next_mmobj kernel_fork = 2 \<and> next_thread kernel_fork = 1
   \<and> map vma_obj (p_vmmap (procs kernel_fork 1)) = [1, 0]
   \<and> map vma_flags (p_vmmap (procs kernel_fork 1)) = [MAP_PRIVATE weenix_h, MAP_SHARED weenix_h]
   \<and> mmo_refcount (mmobjs kernel_fork 1) = 1"
  by (simp add: kernel_fork_def kernel0_def proc0_def set_vmmap_def set_files_def weenix_h_def)

theorem do_fork_interposes_nothing_witness:
  "\<exists>s'. do_fork weenix_h (replicate 17 0) kernel_fork = Some (Inr 0, s')
     \<and> map vma_flags (p_vmmap (procs kernel_fork 1)) = [MAP_PRIVATE weenix_h, MAP_SHARED weenix_h]
     \<and> map vma_obj (p_vmmap (procs kernel_fork 1)) = [1, 0]
     \<and> map vma_obj (p_vmmap (procs s' 1)) = [1, 0]
     \<and> map vma_obj (p_vmmap (procs s' 2)) = [1, 0]
     \<and> next_mmobj s' = next_mmobj kernel_fork
     \<and> mmo_refcount (mmobjs kernel_fork 1) = 1 \<and> mmo_refcount (mmobjs s' 1) = 2"
proof -
  note k = kernel_fork_ready
  from k do_fork_succeeds [of kernel_fork weenix_h "replicate 17 0"]
  obtain s' where run: "do_fork weenix_h (replicate 17 0) kernel_fork = Some (Inr 0, s')"
    by blast
  from k have fresh: "next_pid kernel_fork \<noteq> curproc kernel_fork"
    by blast
  from do_fork_interposes_nothing [OF run fresh] k run show ?thesis
    by simp
qed

theorem do_fork_returns_zero_witness:
  "\<exists>r s'. do_fork weenix_h (replicate 17 7) kernel_fork = Some (Inr r, s')
     \<and> r = 0 \<and> p_pid (procs s' 2) = 2 \<and> kt_proc (threads s' 1) = 2
     \<and> kmem s' (c_esp (kt_ctx (threads s' 1)) + 8 + 4 * 9) = 7"
proof -
  note k = kernel_fork_ready
  from k do_fork_succeeds [of kernel_fork weenix_h "replicate 17 7"]
  obtain s' where run: "do_fork weenix_h (replicate 17 7) kernel_fork = Some (Inr 0, s')"
    by blast
  from k have fresh: "next_pid kernel_fork \<noteq> curproc kernel_fork"
    by blast
  note z = do_fork_returns_zero [OF run fresh]
  from z have "(9::nat) < min (length (replicate 17 (7::nat))) (sizeof_regs_t weenix_h div 4) \<longrightarrow>
      kmem s' (c_esp (kt_ctx (threads s' (next_thread kernel_fork))) + 8 + 4 * 9) = replicate 17 7 ! 9"
    by blast
  then have "kmem s' (c_esp (kt_ctx (threads s' (next_thread kernel_fork))) + 8 + 4 * 9) = 7"
    by (simp add: weenix_h_def)
  with z k run show ?thesis
    by simp
qed

subsection \<open>S5FS\<close>

text \<open>
  C10. When \<open>namelen\<close> exceeds \<open>S5_NAME_LEN\<close>, each of the seven operations that take a name
  returns \<open>-ENAMETOOLONG\<close> and leaves the file system as it was, whatever the state of the
  mutexes: the check comes before the mutex of the vnode is taken.
\<close>

theorem s5fs_name_too_long:
  assumes "S5_NAME_LEN h < namelen"
  shows "s5fs_create h dir name namelen s = Some (Inl ENAMETOOLONG, None, s)
     \<and> s5fs_mknod h dir name namelen mode devid s = Some (Inl ENAMETOOLONG, s)
     \<and> s5fs_lookup h dir name namelen s = Some (Inl ENAMETOOLONG, None, s)
     \<and> s5fs_link h src dir name namelen s = Some (Inl ENAMETOOLONG, s)
     \<and> s5fs_unlink h dir name namelen s = Some (Inl ENAMETOOLONG, s)
     \<and> s5fs_mkdir h dir name namelen s = Some (Inl ENAMETOOLONG, s)
     \<and> s5fs_rmdir h dir name namelen entry s = Some (Inl ENAMETOOLONG, s)"
  using assms
  by (simp add: s5fs_create_def s5fs_mknod_def s5fs_lookup_def s5fs_link_def s5fs_unlink_def
      s5fs_mkdir_def s5fs_rmdir_def)

text \<open>
  In a file system all of whose mutexes are held a name of 29 characters is refused at
  once, while a name of one character makes the caller wait for the mutex.
\<close>

lemma s5fs_unlink_waits:
  "s5fs_unlink weenix_h 1 ''d'' 1 fs_busy = None"
  by (simp add: s5fs_unlink_def kmutex_lock_def fs_busy_def weenix_h_def)

theorem s5fs_name_too_long_witness:
  "s5fs_create weenix_h 1 (replicate 29 (CHR ''a'')) 29 fs_busy = Some (Inl ENAMETOOLONG, None, fs_busy)
   \<and> s5fs_mknod weenix_h 1 (replicate 29 (CHR ''a'')) 29 S_IFCHR 0 fs_busy = Some (Inl ENAMETOOLONG, fs_busy)
   \<and> s5fs_lookup weenix_h 1 (replicate 29 (CHR ''a'')) 29 fs_busy = Some (Inl ENAMETOOLONG, None, fs_busy)
   \<and> s5fs_link weenix_h 2 1 (replicate 29 (CHR ''a'')) 29 fs_busy = Some (Inl ENAMETOOLONG, fs_busy)
   \<and> s5fs_unlink weenix_h 1 (replicate 29 (CHR ''a'')) 29 fs_busy = Some (Inl ENAMETOOLONG, fs_busy)
   \<and> s5fs_mkdir weenix_h 1 (replicate 29 (CHR ''a'')) 29 fs_busy = Some (Inl ENAMETOOLONG, fs_busy)
   \<and> s5fs_rmdir weenix_h 1 (replicate 29 (CHR ''a'')) 29 [] fs_busy = Some (Inl ENAMETOOLONG, fs_busy)"
proof -
  have "S5_NAME_LEN weenix_h < 29"
    by (simp add: weenix_h_def)
  from s5fs_name_too_long [OF this, of 1 "replicate 29 (CHR ''a'')" fs_busy S_IFCHR 0 2 "[]"]
  show ?thesis .
qed

lemma kmutex_unlock_lock:
  "\<not> vn_mutex (s5f_vnodes s v) \<Longrightarrow> kmutex_unlock v (upd_vnode v (\<lambda>n. n\<lparr>vn_mutex := True\<rparr>) s) = s"
proof -
  assume "\<not> vn_mutex (s5f_vnodes s v)"
  then have "(s5f_vnodes s v)\<lparr>vn_mutex := False\<rparr> = s5f_vnodes s v"
    by (cases "s5f_vnodes s v") simp
  then show ?thesis
    by (simp add: kmutex_unlock_def upd_vnode_def)
qed

lemma s5_seek_to_block_no_alloc:
  "snd (s5_seek_to_block h v off False s) = s"
  by (simp add: s5_seek_to_block_def Let_def)

lemma s5_seek_to_block_upd_vnode:
  "fst (s5_seek_to_block h v off False (upd_vnode w f s)) = fst (s5_seek_to_block h v off False s)"
  by (simp add: s5_seek_to_block_def Let_def upd_vnode_def)

lemma s5_seek_to_block_allocated:
  "fst (s5_seek_to_block h v off False s) = Inr b \<Longrightarrow> b \<noteq> 0 \<Longrightarrow>
     s5_seek_to_block h v off True s = (Inr b, s)"
  by (auto simp: s5_seek_to_block_def Let_def split: if_splits)

lemma memset_page:
  "length buf = n \<Longrightarrow> memset buf c n = replicate n c"
  by (simp add: memset_def)

text \<open>
  C7. With the mutex of the vnode free and a page buffer of one block, \<open>s5fs_fillpage\<close>
  returns, leaves the file system as it was, and does what \<open>s5_seek_to_block\<close> with
  \<open>alloc\<close> false says of the offset: for an error it returns the error and the buffer
  as it was; for a block number other than zero it returns the status of \<open>read_block\<close>
  of that block and the buffer as \<open>read_block\<close> left it; for zero, a sparse block, it
  returns 0 and a buffer of zero bytes.
\<close>

theorem s5fs_fillpage_cases:
  assumes "\<not> vn_mutex (s5f_vnodes s vnode)" and "length pagebuf = S5_BLOCK_SIZE"
  shows "s5fs_fillpage h read_block vnode offset pagebuf s =
    (case fst (s5_seek_to_block h vnode offset False s) of
       Inl e \<Rightarrow> Some (Inl e, pagebuf, s)
     | Inr block_no \<Rightarrow>
         if block_no \<noteq> 0
         then Some (fst (read_block block_no pagebuf), snd (read_block block_no pagebuf), s)
         else Some (Inr 0, replicate S5_BLOCK_SIZE (CHR 0x00), s))"
proof -
  let ?s1 = "upd_vnode vnode (\<lambda>n. n\<lparr>vn_mutex := True\<rparr>) s"
  have lock: "kmutex_lock vnode s = Some ?s1"
    using assms(1) by (simp add: kmutex_lock_def)
  have seek: "s5_seek_to_block h vnode offset False ?s1
      = (fst (s5_seek_to_block h vnode offset False s), ?s1)"
    by (simp add: prod_eq_iff s5_seek_to_block_no_alloc s5_seek_to_block_upd_vnode)
  show ?thesis
    by (simp add: s5fs_fillpage_def lock seek kmutex_unlock_lock [OF assms(1)]
        memset_page [OF assms(2)] split_def Let_def split: sum.splits)
qed

theorem s5fs_fillpage_cases_witness:
  "s5fs_fillpage weenix_h read_block_d 5 0 (replicate 4096 (CHR ''x'')) fs0
     = Some (Inr 0, replicate 4096 (CHR 0x00), fs0)
   \<and> s5fs_fillpage weenix_h read_block_d 5 0 (replicate 4096 (CHR ''x'')) fs1
     = Some (Inr 0, replicate 4096 (CHR ''d''), fs1)
   \<and> s5fs_fillpage weenix_h read_block_d 5 4308992 (replicate 4096 (CHR ''x'')) fs0
     = Some (Inl EINVAL, replicate 4096 (CHR ''x''), fs0)"
proof -
  have free: "\<not> vn_mutex (s5f_vnodes fs0 5)" "\<not> vn_mutex (s5f_vnodes fs1 5)"
    by (simp_all add: fs0_def fs1_def upd_inode_def)
  have len: "length (replicate 4096 (CHR ''x'')) = S5_BLOCK_SIZE"
    by (simp add: S5_BLOCK_SIZE_def)
  have seek: "fst (s5_seek_to_block weenix_h 5 0 False fs0) = Inr 0"
    "fst (s5_seek_to_block weenix_h 5 0 False fs1) = Inr 42"
    "fst (s5_seek_to_block weenix_h 5 4308992 False fs0) = Inl EINVAL"
    by (simp_all add: s5_seek_to_block_def S5_BLOCK_SIZE_def S5_NIDIRECT_BLOCKS_def weenix_h_def
        fs0_def fs1_def upd_inode_def)
  from s5fs_fillpage_cases [OF free(1) len, of weenix_h read_block_d 0]
    s5fs_fillpage_cases [OF free(2) len, of weenix_h read_block_d 0]
    s5fs_fillpage_cases [OF free(1) len, of weenix_h read_block_d 4308992]
  show ?thesis
    by (simp add: seek read_block_d_def S5_BLOCK_SIZE_def)
qed

text \<open>
  C3 does not hold of the code: the test of \<open>s5fs_dirtypage\<close> is the wrong way round. With
  the mutex of the vnode free, for an offset in a sparse region it returns 0 and leaves the
  file system as it was, so the region stays sparse whatever the free list holds; and for
  an offset that has a block it returns the number of the block, which is not 0.
\<close>

theorem s5fs_dirtypage_inverted:
  assumes "\<not> vn_mutex (s5f_vnodes s vnode)"
  shows "(fst (s5_seek_to_block h vnode offset False s) = Inr 0 \<longrightarrow>
            s5fs_dirtypage h vnode offset s = Some (Inr 0, s))
       \<and> (\<forall>b. b \<noteq> 0 \<and> fst (s5_seek_to_block h vnode offset False s) = Inr b \<longrightarrow>
            s5fs_dirtypage h vnode offset s = Some (Inr b, s))"
proof -
  let ?s1 = "upd_vnode vnode (\<lambda>n. n\<lparr>vn_mutex := True\<rparr>) s"
  have lock: "kmutex_lock vnode s = Some ?s1"
    using assms(1) by (simp add: kmutex_lock_def)
  have seek: "s5_seek_to_block h vnode offset False ?s1
      = (fst (s5_seek_to_block h vnode offset False s), ?s1)"
    by (simp add: prod_eq_iff s5_seek_to_block_no_alloc s5_seek_to_block_upd_vnode)
  have sparse: "s5fs_dirtypage h vnode offset s = Some (Inr 0, s)"
    if "fst (s5_seek_to_block h vnode offset False s) = Inr 0"
    by (simp add: s5fs_dirtypage_def lock seek that kmutex_unlock_lock [OF assms(1)])
  have allocated: "s5fs_dirtypage h vnode offset s = Some (Inr b, s)"
    if "b \<noteq> 0" and "fst (s5_seek_to_block h vnode offset False s) = Inr b" for b
  proof -
    from that(2) have "fst (s5_seek_to_block h vnode offset False ?s1) = Inr b"
      by (simp add: s5_seek_to_block_upd_vnode)
    from s5_seek_to_block_allocated [OF this that(1)]
    have "s5_seek_to_block h vnode offset True ?s1 = (Inr b, ?s1)" .
    with that(1) show ?thesis
      by (cases b) (simp_all add: s5fs_dirtypage_def lock seek that(2)
          kmutex_unlock_lock [OF assms(1)])
  qed
  from sparse allocated show ?thesis
    by blast
qed

theorem s5fs_dirtypage_inverted_witness:
  "fst (s5_seek_to_block weenix_h 5 0 False fs0) = Inr 0
   \<and> s5f_free_blocks fs0 = [100, 101]
   \<and> s5fs_dirtypage weenix_h 5 0 fs0 = Some (Inr 0, fs0)
   \<and> fst (s5_seek_to_block weenix_h 5 0 False fs1) = Inr 42
   \<and> s5fs_dirtypage weenix_h 5 0 fs1 = Some (Inr 42, fs1)"
proof -
  have free: "\<not> vn_mutex (s5f_vnodes fs0 5)" "\<not> vn_mutex (s5f_vnodes fs1 5)"
    by (simp_all add: fs0_def fs1_def upd_inode_def)
  have seek: "fst (s5_seek_to_block weenix_h 5 0 False fs0) = Inr 0"
    "fst (s5_seek_to_block weenix_h 5 0 False fs1) = Inr 42"
    by (simp_all add: s5_seek_to_block_def S5_BLOCK_SIZE_def weenix_h_def
        fs0_def fs1_def upd_inode_def)
  have "s5f_free_blocks fs0 = [100, 101]"
    by (simp add: fs0_def)
  with s5fs_dirtypage_inverted [OF free(1), of weenix_h 0]
    s5fs_dirtypage_inverted [OF free(2), of weenix_h 0] seek
  show ?thesis
    by simp
qed

lemma s5_read_file_upd_vnode:
  "s5_read_file h vn offset d len (upd_vnode v f s) = s5_read_file h vn offset d len s"
  by (simp add: s5_read_file_def upd_vnode_def split: sum.splits)

lemma s5fs_readdir_free:
  "\<not> vn_mutex (s5f_vnodes s vn) \<Longrightarrow>
     s5fs_readdir h vn offset d s =
       Some (fst (s5_read_file h vn offset d (sizeof_dirent_t h) s),
             snd (s5_read_file h vn offset d (sizeof_dirent_t h) s), s)"
  by (simp add: s5fs_readdir_def kmutex_lock_def kmutex_unlock_lock split_def Let_def
      s5_read_file_upd_vnode)

lemma s5_read_file_again:
  "snd (s5_read_file h vn offset (snd (s5_read_file h vn offset d len s)) len s)
     = snd (s5_read_file h vn offset d len s)"
  by (simp add: s5_read_file_def Let_def split: sum.splits)

lemma s5fs_rmdir_loop_stuck:
  assumes free: "\<not> vn_mutex (s5f_vnodes s vn)" and off: "offset \<noteq> Inr 0"
    and e0: "d_name h entry = ''.'' \<or> d_name h entry = ''..'' \<or> d_name h entry = []"
    and e1: "d_name h (snd (s5_read_file h vn offset entry (sizeof_dirent_t h) s)) = ''.''
          \<or> d_name h (snd (s5_read_file h vn offset entry (sizeof_dirent_t h) s)) = ''..''
          \<or> d_name h (snd (s5_read_file h vn offset entry (sizeof_dirent_t h) s)) = []"
    and run: "s5fs_rmdir_loop h' vn' offset' entry' s' = Some y'"
  shows "\<not> (h' = h \<and> vn' = vn \<and> offset' = offset \<and> s' = s
        \<and> (entry' = entry \<or> entry' = snd (s5_read_file h vn offset entry (sizeof_dirent_t h) s)))"
proof (rule s5fs_rmdir_loop.raw_induct [OF _ run])
  fix loop h' vn' offset' entry' s' y'
  assume IH: "\<And>h' vn' offset' entry' s' y'. loop h' vn' offset' entry' s' = Some y' \<Longrightarrow>
     \<not> (h' = h \<and> vn' = vn \<and> offset' = offset \<and> s' = s
        \<and> (entry' = entry \<or> entry' = snd (s5_read_file h vn offset entry (sizeof_dirent_t h) s)))"
    and step: "(if offset' \<noteq> Inr 0
      then if d_name h' entry' \<noteq> ''.'' \<and> d_name h' entry' \<noteq> ''..'' \<and> d_name h' entry' \<noteq> []
           then Some (True, s')
           else case s5fs_readdir h' vn' offset' entry' s' of None \<Rightarrow> None
                | Some (status, entry'', s'') \<Rightarrow> loop h' vn' offset' entry'' s''
      else Some (False, s')) = Some y'"
  let ?R = "\<lambda>e. snd (s5_read_file h vn offset e (sizeof_dirent_t h) s)"
  show "\<not> (h' = h \<and> vn' = vn \<and> offset' = offset \<and> s' = s
        \<and> (entry' = entry \<or> entry' = ?R entry))"
  proof
    assume c: "h' = h \<and> vn' = vn \<and> offset' = offset \<and> s' = s \<and> (entry' = entry \<or> entry' = ?R entry)"
    then have dots: "d_name h entry' = ''.'' \<or> d_name h entry' = ''..'' \<or> d_name h entry' = []"
      using e0 e1 by auto
    from c have R: "?R entry' = ?R entry"
      using s5_read_file_again [of h vn offset entry "sizeof_dirent_t h" s] by auto
    from step c dots off have "loop h vn offset (?R entry') s = Some y'"
      by (auto simp: s5fs_readdir_free [OF free])
    with R have "loop h vn offset (?R entry) s = Some y'"
      by simp
    from IH [OF this] show False
      by simp
  qed
qed

text \<open>
  C4 does not hold of the code: the loop of \<open>s5fs_rmdir\<close> never advances \<^verbatim>\<open>offset\<close>. Once
  the first \<open>s5fs_readdir\<close> has returned a value other than 0, the loop reads the same
  bytes of the directory again and again; unless the name it sees in \<^verbatim>\<open>entry\<close> first or
  the name it sees in those bytes is a live name other than \<^verbatim>\<open>.\<close> and \<^verbatim>\<open>..\<close>, the loop does
  not end, whatever else the directory holds.
\<close>

theorem s5fs_rmdir_loop_diverges:
  assumes "\<not> vn_mutex (s5f_vnodes s vn)" and "offset \<noteq> Inr 0"
    and "d_name h entry = ''.'' \<or> d_name h entry = ''..'' \<or> d_name h entry = []"
    and "d_name h (snd (s5_read_file h vn offset entry (sizeof_dirent_t h) s)) = ''.''
          \<or> d_name h (snd (s5_read_file h vn offset entry (sizeof_dirent_t h) s)) = ''..''
          \<or> d_name h (snd (s5_read_file h vn offset entry (sizeof_dirent_t h) s)) = []"
  shows "s5fs_rmdir_loop h vn offset entry s = None"
proof (rule ccontr)
  assume "s5fs_rmdir_loop h vn offset entry s \<noteq> None"
  then obtain y where "s5fs_rmdir_loop h vn offset entry s = Some y"
    by blast
  from s5fs_rmdir_loop_stuck [OF assms this] show False
    by simp
qed


lemma fs0_dir2_bytes:
  "s5_dir_bytes weenix_h (s5f_dirs fs0 2) =
     [char_of (2::nat), char_of ((2::nat) div 256), char_of ((2::nat) div 65536), char_of ((2::nat) div 16777216)]
       @ ''.'' @ replicate 27 (CHR 0x00)
     @ [char_of (1::nat), char_of ((1::nat) div 256), char_of ((1::nat) div 65536), char_of ((1::nat) div 16777216)]
       @ ''..'' @ replicate 26 (CHR 0x00)
     @ [char_of (3::nat), char_of ((3::nat) div 256), char_of ((3::nat) div 65536), char_of ((3::nat) div 16777216)]
       @ ''f'' @ replicate 27 (CHR 0x00)"
  by (simp add: fs0_def s5_dir_bytes_def s5_dirent_bytes_def weenix_h_def)

lemma fs0_locked_dir2: "s5f_dirs fs0_locked 2 = s5f_dirs fs0 2" "\<not> vn_mutex (s5f_vnodes fs0_locked 2)"
  by (simp_all add: fs0_locked_def upd_vnode_def fs0_def)

lemma fs0_first_read:
  "s5_read_file weenix_h 2 (Inr 0) (replicate 40 (CHR ''x'')) 40 fs0_locked =
     (Inr 40, [char_of (2::nat), char_of ((2::nat) div 256), char_of ((2::nat) div 65536), char_of ((2::nat) div 16777216)]
       @ ''.'' @ replicate 27 (CHR 0x00)
     @ [char_of (1::nat), char_of ((1::nat) div 256), char_of ((1::nat) div 65536), char_of ((1::nat) div 16777216)]
       @ ''..'' @ replicate 2 (CHR 0x00))"
  by (simp add: s5_read_file_def fs0_locked_dir2 fs0_dir2_bytes Let_def)


lemma fs0_second_read:
  "length e = 40 \<Longrightarrow> snd (s5_read_file weenix_h 2 (Inr 40) e 40 fs0_locked) =
     replicate 24 (CHR 0x00)
     @ [char_of (3::nat), char_of ((3::nat) div 256), char_of ((3::nat) div 65536), char_of ((3::nat) div 16777216)]
     @ ''f'' @ replicate 11 (CHR 0x00)"
  by (simp add: s5_read_file_def fs0_locked_dir2 fs0_dir2_bytes Let_def)

text \<open>
  So \<open>s5fs_rmdir\<close> of a directory that holds \<^verbatim>\<open>.\<close>, \<^verbatim>\<open>..\<close> and a live entry \<^verbatim>\<open>f\<close> does not
  return, where the claim has it fail.
\<close>

theorem s5fs_rmdir_loop_diverges_witness:
  "s5fs_rmdir weenix_h 1 ''d'' 1 (replicate 40 (CHR ''x'')) fs0 = None"
proof -
  let ?e1 = "[char_of (2::nat), char_of ((2::nat) div 256), char_of ((2::nat) div 65536), char_of ((2::nat) div 16777216)]
       @ ''.'' @ replicate 27 (CHR 0x00)
     @ [char_of (1::nat), char_of ((1::nat) div 256), char_of ((1::nat) div 65536), char_of ((1::nat) div 16777216)]
       @ ''..'' @ replicate 2 (CHR 0x00)"
  have lock: "kmutex_lock 1 fs0 = Some (upd_vnode 1 (\<lambda>n. n\<lparr>vn_mutex := True\<rparr>) fs0)"
    by (simp add: kmutex_lock_def fs0_def)
  have look: "s5_find_dirent 1 ''d'' 1 (upd_vnode 1 (\<lambda>n. n\<lparr>vn_mutex := True\<rparr>) fs0) = Inr 2"
    by (simp add: s5_find_dirent_def upd_vnode_def fs0_def name_match_def)
  have vg: "vget 2 (upd_vnode 1 (\<lambda>n. n\<lparr>vn_mutex := True\<rparr>) fs0) = (2, fs0_locked)"
    by (simp add: vget_def fs0_locked_def upd_vnode_def fs0_def)
  have isdir: "S_ISDIR (vn_mode (s5f_vnodes fs0_locked 1))"
    by (simp add: S_ISDIR_def fs0_locked_def upd_vnode_def fs0_def)
  have size: "sizeof_dirent_t weenix_h = 40" and name: "offsetof_d_name weenix_h = 8"
    and len: "\<not> S5_NAME_LEN weenix_h < 1"
    by (simp_all add: weenix_h_def)
  have rd: "s5fs_readdir weenix_h 2 (Inr 0) (replicate 40 (CHR ''x'')) fs0_locked
              = Some (Inr 40, ?e1, fs0_locked)"
    by (simp add: s5fs_readdir_free fs0_locked_dir2 size fs0_first_read)
  have "s5fs_rmdir_loop weenix_h 2 (Inr 40) ?e1 fs0_locked = None"
    by (rule s5fs_rmdir_loop_diverges)
      (simp_all add: fs0_locked_dir2 size fs0_second_read d_name_def name)
  with lock look vg isdir rd len show ?thesis
    by (simp add: s5fs_rmdir_def name_match_def)
qed

lemma s5fs_rmdir_loop_exit:
  assumes run: "s5fs_rmdir_loop h vn offset entry s = Some y"
  shows "fst y = (offset \<noteq> Inr 0) \<and> (offset = Inr 0 \<longrightarrow> snd y = s)"
proof (rule s5fs_rmdir_loop.raw_induct [OF _ run])
  fix loop h' vn' offset' entry' s' y'
  assume IH: "\<And>h' vn' offset' entry' s' y'. loop h' vn' offset' entry' s' = Some y' \<Longrightarrow>
      fst y' = (offset' \<noteq> Inr 0) \<and> (offset' = Inr 0 \<longrightarrow> snd y' = s')"
    and step: "(if offset' \<noteq> Inr 0
      then if d_name h' entry' \<noteq> ''.'' \<and> d_name h' entry' \<noteq> ''..'' \<and> d_name h' entry' \<noteq> []
           then Some (True, s')
           else case s5fs_readdir h' vn' offset' entry' s' of None \<Rightarrow> None
                | Some (status, entry'', s'') \<Rightarrow> loop h' vn' offset' entry'' s''
      else Some (False, s')) = Some y'"
  show "fst y' = (offset' \<noteq> Inr 0) \<and> (offset' = Inr 0 \<longrightarrow> snd y' = s')"
  proof (cases "offset' = Inr 0")
    case True
    with step show ?thesis
      by auto
  next
    case False
    show ?thesis
    proof (cases "d_name h' entry' \<noteq> ''.'' \<and> d_name h' entry' \<noteq> ''..'' \<and> d_name h' entry' \<noteq> []")
      case True
      with step False have "y' = (True, s')"
        by simp
      with False show ?thesis
        by simp
    next
      case dots: False
      show ?thesis
      proof (cases "s5fs_readdir h' vn' offset' entry' s'")
        case None
        with step False dots show ?thesis
          by (simp only: if_True if_False option.case) simp
      next
        case (Some r)
        obtain st e'' s'' where r: "r = (st, e'', s'')"
          by (cases r)
        from step have "loop h' vn' offset' e'' s'' = Some y'"
          unfolding if_P [OF False] if_not_P [OF dots] Some r by simp
        from IH [OF this] False show ?thesis
          by simp
      qed
    qed
  qed
qed

lemma s5_dir_bytes_Nil: "0 < n \<Longrightarrow> take n (s5_dir_bytes h ds) = [] \<Longrightarrow> ds = []"
  by (cases ds) (simp_all add: s5_dir_bytes_def s5_dirent_bytes_def)

lemma s5fs_readdir_state:
  "s5fs_readdir h vn offset d s = Some (status, d', s') \<Longrightarrow> s5f_dirs s' = s5f_dirs s"
  by (auto simp: s5fs_readdir_def kmutex_lock_def kmutex_unlock_def upd_vnode_def split_def Let_def
      split: if_splits)

lemma s5fs_readdir_empty:
  assumes "s5fs_readdir h vn (Inr 0) d s = Some (Inr 0, d', s')" and "0 < sizeof_dirent_t h"
  shows "s5f_dirs s vn = []"
proof -
  from assms(1) have "length (take (sizeof_dirent_t h) (s5_dir_bytes h (s5f_dirs s vn))) = 0"
    by (auto simp: s5fs_readdir_def kmutex_lock_def s5_read_file_def upd_vnode_def split_def Let_def
        split: if_splits)
  then have "take (sizeof_dirent_t h) (s5_dir_bytes h (s5f_dirs s vn)) = []"
    by (simp only: length_0_conv)
  from s5_dir_bytes_Nil [OF assms(2) this] show ?thesis .
qed

lemma s5_remove_dirent_empty:
  "s5f_dirs s dir = [] \<Longrightarrow> s5_remove_dirent dir name namelen s = (Inl ENOENT, s)"
  by (simp add: s5_remove_dirent_def s5_find_dirent_def)

text \<open>
  The loop ends only through \<^verbatim>\<open>return -ENOTEMPTY\<close> or with \<^verbatim>\<open>offset\<close> zero from the
  start, which is the case of a directory file without any record; there is no \<^verbatim>\<open>..\<close>
  to remove then. So \<open>s5fs_rmdir\<close> never returns 0.
\<close>

lemma s5fs_rmdir_never_succeeds:
  assumes "0 < sizeof_dirent_t h"
  shows "s5fs_rmdir h parent name namelen entry s \<noteq> Some (Inr 0, s')"
proof
  assume ok: "s5fs_rmdir h parent name namelen entry s = Some (Inr 0, s')"
  then obtain s1 ino where lock: "kmutex_lock parent s = Some s1"
    and look: "s5_find_dirent parent name namelen s1 = Inr ino"
    by (auto simp: s5fs_rmdir_def split: if_splits sum.splits Option.bind_splits)
  obtain vn s2 where vg: "vget ino s1 = (vn, s2)"
    by (cases "vget ino s1")
  from ok lock look vg obtain offset entry1 s3 nonempty s4
    where rd: "s5fs_readdir h vn (Inr 0) entry s2 = Some (offset, entry1, s3)"
      and lp: "s5fs_rmdir_loop h vn offset entry1 s3 = Some (nonempty, s4)"
      and rest: "(if nonempty then Some (Inl ENOTEMPTY, kmutex_unlock parent (vput_fs vn s4))
                    else
                      (let (status, s5) = s5_remove_dirent vn ''..'' 2 s4
                       in if status \<noteq> Inr 0 then Some (status, kmutex_unlock parent s5)
                          else
                            (let (status, s6) = s5_remove_dirent parent name namelen s5
                             in Some (status, kmutex_unlock parent s6)))) = Some (Inr 0, s')"
    by (auto simp: s5fs_rmdir_def split: if_splits Option.bind_splits)
  from rest have "\<not> nonempty"
    by (auto split: if_splits)
  with s5fs_rmdir_loop_exit [OF lp] have off: "offset = Inr 0" and s4: "s4 = s3"
    by auto
  from s5fs_readdir_empty [OF rd [unfolded off] assms] have "s5f_dirs s2 vn = []" .
  with s5fs_readdir_state [OF rd] have "s5f_dirs s4 vn = []"
    by (simp add: s4)
  from s5_remove_dirent_empty [OF this] rest \<open>\<not> nonempty\<close> show False
    by simp
qed

end
